theory Spec2Isabelle
  imports Complex_Main "HOL-Library.Multiset"
begin

section \<open>Market evaluation engine of server/index.ts\<close>

text \<open>
  A shallow embedding of the scoring core of \<^verbatim>\<open>src/server/index.ts\<close>: the keyword
  taxonomies, the three penalty functions, the component scores, the composite
  \<^verbatim>\<open>calculateScalpingScore\<close>, and the per-market part of \<^verbatim>\<open>getScalpingMarkets\<close>.

  Conventions of the embedding:
  \<^item> JavaScript numbers are real numbers; binary floating-point rounding is not
    modelled. The one non-real value the code itself can create from a string,
    \<^verbatim>\<open>NaN\<close>, is explicit wherever the source parses (\<^verbatim>\<open>parseFloat\<close>, \<^verbatim>\<open>new Date\<close>)
    or guards with \<^verbatim>\<open>||\<close>.
  \<^item> Strings are lists of ASCII characters; \<^verbatim>\<open>toLowerCase\<close> maps A-Z to a-z.
  \<^item> The two reads of the outside world, \<^verbatim>\<open>Date.now()\<close> and the HTTP fetch of an
    order book, are parameters.
\<close>

subsection \<open>JavaScript numbers\<close>

datatype jsnum = NaN | Num real

text \<open>Comparisons with \<^verbatim>\<open>NaN\<close> are false.\<close>

fun js_lt :: "jsnum \<Rightarrow> real \<Rightarrow> bool" where
  "js_lt NaN y = False"
| "js_lt (Num x) y = (x < y)"

fun js_gt :: "jsnum \<Rightarrow> real \<Rightarrow> bool" where
  "js_gt NaN y = False"
| "js_gt (Num x) y = (x > y)"

text \<open>\<^verbatim>\<open>x || d\<close> on a number: \<^verbatim>\<open>NaN\<close>, 0 (and a missing field) are falsy.\<close>

fun js_or :: "jsnum \<Rightarrow> real \<Rightarrow> real" where
  "js_or NaN d = d"
| "js_or (Num x) d = (if x = 0 then d else x)"

text \<open>Arithmetic with a \<^verbatim>\<open>NaN\<close> operand is \<^verbatim>\<open>NaN\<close>; so are \<^verbatim>\<open>Math.max\<close>, \<^verbatim>\<open>Math.abs\<close>
  and \<^verbatim>\<open>toFixed\<close> followed by \<^verbatim>\<open>parseFloat\<close>.\<close>

fun js_map :: "(real \<Rightarrow> real) \<Rightarrow> jsnum \<Rightarrow> jsnum" where
  "js_map f NaN = NaN"
| "js_map f (Num x) = Num (f x)"

text \<open>\<^verbatim>\<open>parseFloat(x.toFixed(2))\<close>: the nearest multiple of 1/100, the larger one on a tie.\<close>

definition toFixed2 :: "real \<Rightarrow> real" where
  "toFixed2 x = real_of_int \<lfloor>x * 100 + 1 / 2\<rfloor> / 100"

text \<open>\<^verbatim>\<open>Math.log10\<close> on a positive argument (every call below has one when volumes and
  depths are nonnegative).\<close>

definition log10 :: "real \<Rightarrow> real" where
  "log10 x = log 10 x"

subsection \<open>Strings: lower-casing, substring search, the regular expressions used\<close>

definition toLowerChar :: "char \<Rightarrow> char" where
  "toLowerChar c =
     (case map_of (zip ''ABCDEFGHIJKLMNOPQRSTUVWXYZ'' ''abcdefghijklmnopqrstuvwxyz'') c of
        Some l \<Rightarrow> l
      | None \<Rightarrow> c)"

definition toLowerCase :: "string \<Rightarrow> string" where
  "toLowerCase s = map toLowerChar s"

text \<open>
  A pattern is a predicate on the rest of the string that holds when a prefix of it
  matches; the continuation is the pattern that follows. \<^verbatim>\<open>RegExp.test\<close> and
  \<^verbatim>\<open>String.includes\<close> search at every position.
\<close>

type_synonym pattern = "string \<Rightarrow> bool"

definition accept :: pattern where
  "accept s = True"

fun startsWith :: "string \<Rightarrow> string \<Rightarrow> bool" where
  "startsWith s [] = True"
| "startsWith [] (k # ks) = False"
| "startsWith (c # cs) (k # ks) = (c = k \<and> startsWith cs ks)"

definition lit :: "string \<Rightarrow> pattern \<Rightarrow> pattern" where
  "lit k rest s = (startsWith s k \<and> rest (drop (length k) s))"

definition isDigit :: "char \<Rightarrow> bool" where
  "isDigit c = List.member ''0123456789'' c"

fun digit :: "pattern \<Rightarrow> pattern" where
  "digit rest [] = False"
| "digit rest (c # cs) = (isDigit c \<and> rest cs)"

definition optDigit :: "pattern \<Rightarrow> pattern" where
  "optDigit rest s = (digit rest s \<or> rest s)"

definition isLineTerminator :: "char \<Rightarrow> bool" where
  "isLineTerminator c = (c = CHR 0x0A \<or> c = CHR 0x0D)"

text \<open>\<^verbatim>\<open>.+\<close>: one or more characters other than a line terminator.\<close>

fun dotPlus :: "pattern \<Rightarrow> pattern" where
  "dotPlus rest [] = False"
| "dotPlus rest (c # cs) = (\<not> isLineTerminator c \<and> (rest cs \<or> dotPlus rest cs))"

fun test :: "pattern \<Rightarrow> string \<Rightarrow> bool" where
  "test p [] = p []"
| "test p (c # cs) = (p (c # cs) \<or> test p cs)"

definition includesStr :: "string \<Rightarrow> string \<Rightarrow> bool" where
  "includesStr s kw = test (lit kw accept) s"

subsection \<open>Keyword exclusion lists\<close>

definition JUMP_RISK_KEYWORDS :: "string list" where
  "JUMP_RISK_KEYWORDS = [
    ''regime'', ''overthrow'', ''coup'', ''revolution'', ''collapse'', ''fall of'',
    ''supreme leader'', ''khamenei'', ''putin '', ''xi jinping'', ''kim jong'',
    ''maduro'', ''zelensky'', ''netanyahu'',
    ''war '', ''strike '', ''nuclear'', ''invade'', ''invasion'', ''attack on'',
    ''bombing'', ''missile'', ''assassination'', ''assassinate'', ''ceasefire'',
    ''hostage'', ''martial law'', ''military action'',
    ''fed '', ''federal reserve'', ''fomc'', ''rate cut'', ''rate hike'', ''basis points'',
    ''interest rate'', ''powell'', ''ecb '', ''central bank'', ''monetary policy'',
    ''tariff'', ''sanction'',
    ''supreme court'', ''ruling'', ''verdict'', ''indictment'', ''convicted'',
    ''sentenced'', ''court decision'', ''lawsuit'', ''appeal'', ''pardon'',
    ''primary'', ''nomination'', ''nominee'', ''endorsement'', ''withdraw'',
    ''drop out'', ''electoral'', ''ballot'', ''caucus'', ''delegate'',
    ''impeach'', ''resign'', ''cabinet'', ''presidential election'', ''win the election'',
    ''election winner'', ''elected president'',
    ''by midnight'', ''by end of day'', ''before january'', ''before february'',
    ''before march'', ''before april'', ''before may'', ''before june'',
    ''before july'', ''before august'', ''before september'', ''before october'',
    ''before november'', ''before december'',
    ''by january'', ''by february'', ''by march'', ''by april'', ''by may'', ''by june'',
    ''by july'', ''by august'', ''by september'', ''by october'', ''by november'', ''by december'']"

definition STRUCTURAL_DECAY_KEYWORDS :: "string list" where
  "STRUCTURAL_DECAY_KEYWORDS = [
    ''win the premier league'', ''win the champions league'', ''win the world series'',
    ''win the nba'', ''win the nfl'', ''win the stanley cup'',
    ''world cup winner'', ''championship winner'', ''league winner'', ''tournament winner'',
    ''win the title'', ''crowned champion'', ''season winner'', ''win the championship'',
    ''win the playoffs'', ''make the playoffs'', ''win the division'',
    ''win the conference'', ''win the cup'', ''win the series'',
    ''win super bowl'', ''super bowl 20'', ''super bowl champion'', ''super bowl winner'',
    ''english premier league'', ''premier league?'', ''la liga'', ''bundesliga'', ''serie a'',
    ''ligue 1'', ''eredivisie'',
    ''ballon d'' @ [CHR 0x27] @ ''or'', ''mvp '', ''rookie of the year'', ''cy young'', ''heisman'',
    ''golden boot'', ''golden glove'', ''player of the year'', ''coach of the year'',
    ''defensive player'', ''most improved'',
    ''ever '', ''will ever'', ''lifetime'', ''career'', ''all-time'', ''hall of fame'',
    ''finish first'', ''finish last'', ''relegated'', ''promoted'', ''qualify for'']"

subsection \<open>Scoring helper functions\<close>

definition months :: "string list" where
  "months = [''january'', ''february'', ''march'', ''april'', ''may'', ''june'', ''july'',
     ''august'', ''september'', ''october'', ''november'', ''december'']"

text \<open>\<^verbatim>\<open>(january|...|december)\<close> after a literal prefix.\<close>

definition monthAfter :: "string \<Rightarrow> pattern" where
  "monthAfter pre s = list_ex (\<lambda>mo. lit pre (lit mo accept) s) months"

definition countdownPatterns :: "pattern list" where
  "countdownPatterns = [
     monthAfter ''by '',
     monthAfter ''before '',
     lit ''by end of'' accept,
     lit ''by midnight'' accept,
     lit ''by '' (digit (optDigit (lit ''/'' (digit (optDigit accept))))),
     lit ''by '' (digit (digit (digit (digit accept)))),
     lit ''before '' (digit (digit (digit (digit accept))))]"

definition willThen :: "string \<Rightarrow> pattern" where
  "willThen w = lit ''will '' (dotPlus (lit ('' '' @ w) accept))"

definition singleEventPatterns :: "pattern list" where
  "singleEventPatterns = [
     willThen ''announce'', willThen ''decision'', willThen ''rule on'', willThen ''vote on'',
     willThen ''result'', willThen ''confirm'', willThen ''approve'', willThen ''reject'',
     willThen ''pass'', willThen ''veto'']"

definition calculateEventResolutionPenalty :: "string \<Rightarrow> real" where
  "calculateEventResolutionPenalty q =
     (let lowerQ = toLowerCase q;
          hasCountdown = list_ex (\<lambda>p. test p lowerQ) countdownPatterns;
          isSingleEvent = list_ex (\<lambda>p. test p lowerQ) singleEventPatterns
      in if hasCountdown then 0.3
         else if isSingleEvent then 0.5
         else 1.0)"

definition calculateJumpRiskPenalty :: "string \<Rightarrow> jsnum \<Rightarrow> real" where
  "calculateJumpRiskPenalty q change =
     (let lowerQ = toLowerCase q;
          hasJumpRiskKeyword = list_ex (\<lambda>kw. includesStr lowerQ kw) JUMP_RISK_KEYWORDS
      in if hasJumpRiskKeyword then 0
         else let absChange = \<bar>js_or change 0\<bar>
              in if absChange > 0.30 then 0.2
                 else if absChange > 0.20 then 0.5
                 else if absChange > 0.10 then 0.8
                 else 1.0)"

text \<open>The price comes from \<^verbatim>\<open>parseFloat\<close> and may be \<^verbatim>\<open>NaN\<close>; the change is passed as
  \<^verbatim>\<open>market.oneWeekPriceChange || 0\<close>, a number.\<close>

definition calculateDriftPenalty :: "jsnum \<Rightarrow> real \<Rightarrow> real" where
  "calculateDriftPenalty currentPrice change =
     (let isNearZero = js_lt currentPrice 0.15;
          isNearOne = js_gt currentPrice 0.85;
          isDriftingDown = (change < - 0.05);
          isDriftingUp = (change > 0.05)
      in if isNearZero \<and> isDriftingDown then 0
         else if isNearOne \<and> isDriftingUp then 0
         else if isNearZero \<or> isNearOne then 0.5
         else if \<bar>change\<bar> < 0.03 then 1.2
         else 1.0)"

definition calculateVolumeChurnScore :: "real \<Rightarrow> real \<Rightarrow> real" where
  "calculateVolumeChurnScore volume24 volume7d =
     (let expectedDailyRatio = 1 / 7;
          actualRatio = volume24 / (if volume7d = 0 then 1 else volume7d)
      in if actualRatio > 0.3
         then max 20 (100 - (actualRatio - expectedDailyRatio) * 150)
         else let consistencyFactor = 1 - \<bar>actualRatio - expectedDailyRatio\<bar> * 4;
                  baseScore = min 100 (log10 (volume24 + 1) * 20)
              in baseScore * max 0.5 (min 1.3 consistencyFactor))"

definition calculateDepthQualityScore :: "real \<Rightarrow> real \<Rightarrow> real \<Rightarrow> real \<Rightarrow> real" where
  "calculateDepthQualityScore bidDepth1 askDepth1 bidDepth5 askDepth5 =
     (let totalDepth = bidDepth5 + askDepth5
      in if totalDepth = 0 then 0
         else if bidDepth1 = 0 \<or> askDepth1 = 0 then 0
         else let imbalance = \<bar>bidDepth5 - askDepth5\<bar> / (bidDepth5 + askDepth5);
                  symmetryScore = 1 - imbalance;
                  depthScore = min 100 (log10 (totalDepth + 1) * 30);
                  beyondTOB = (bidDepth5 - bidDepth1) + (askDepth5 - askDepth1);
                  layerBonus = min 1.3 (1 + log10 (beyondTOB + 2) * 0.1)
              in depthScore * symmetryScore * layerBonus)"

subsection \<open>Data model\<close>

text \<open>
  \<^verbatim>\<open>outcomePrices\<close> is a JSON string that the code reads only through
  \<^verbatim>\<open>parseFloat(JSON.parse(market.outcomePrices)[0])\<close> inside \<^verbatim>\<open>try\<close>. The field holds
  the outcome of that expression: \<open>Malformed\<close> when it throws (the string is not
  JSON, or parses to \<^verbatim>\<open>null\<close>), otherwise what \<^verbatim>\<open>parseFloat\<close> returns for the first
  element, which is \<^verbatim>\<open>NaN\<close> when that element is missing or not numeric.
\<close>

datatype outcome_prices = Malformed | FirstElem jsnum

text \<open>
  \<open>clobTokenIds\<close> holds the outcome of \<^verbatim>\<open>JSON.parse(m.clobTokenIds)\<close> (\<open>None\<close>: it
  throws); \<open>endDate\<close> holds \<^verbatim>\<open>new Date(m.endDate).getTime()\<close>, milliseconds since the
  epoch or \<^verbatim>\<open>NaN\<close> for an invalid date. The numeric fields the code guards with
  \<^verbatim>\<open>||\<close> may be \<^verbatim>\<open>NaN\<close> (or absent, which \<^verbatim>\<open>||\<close> treats alike).
\<close>

record market =
  ident :: string
  question :: string
  slug :: string
  volume24hr :: real
  volume1wk :: real
  outcomePrices :: outcome_prices
  clobTokenIds :: "string list option"
  endDate :: jsnum
  orderPriceMinTickSize :: jsnum
  feesEnabled :: bool
  liquidity :: jsnum
  oneWeekPriceChange :: jsnum

text \<open>An order-book level after \<^verbatim>\<open>parseFloat\<close> of its two decimal strings.\<close>

record level =
  price :: real
  size :: real

record order_book =
  bids :: "level list"
  asks :: "level list"

record score_result =
  score :: jsnum
  exclusionReason :: "string option"

subsection \<open>Number formatting in the exclusion reason\<close>

fun natToString :: "nat \<Rightarrow> string" where
  "natToString n =
     (if n < 10 then [''0123456789'' ! n]
      else natToString (n div 10) @ [''0123456789'' ! (n mod 10)])"

declare natToString.simps [simp del]

text \<open>\<^verbatim>\<open>x.toFixed(1)\<close>: sign, integer part, one decimal; ties go to the larger magnitude.\<close>

definition toFixed1 :: "real \<Rightarrow> string" where
  "toFixed1 x =
     (let n = nat \<lfloor>\<bar>x\<bar> * 10 + 1 / 2\<rfloor>
      in (if x < 0 then ''-'' else []) @ natToString (n div 10) @ ''.'' @ natToString (n mod 10))"

fun priceAtEdgeReason :: "jsnum \<Rightarrow> string" where
  "priceAtEdgeReason NaN = ''Price at edge (NaN%)''"
| "priceAtEdgeReason (Num p) = ''Price at edge ('' @ toFixed1 (p * 100) @ ''%)''"

definition quoted :: "string \<Rightarrow> string" where
  "quoted kw = [CHR 0x22] @ kw @ [CHR 0x22]"

subsection \<open>Main scalping score calculation\<close>

definition excluded :: "string \<Rightarrow> score_result" where
  "excluded reason = \<lparr>score = Num 0, exclusionReason = Some reason\<rparr>"

definition spreadScore :: "real \<Rightarrow> real" where
  "spreadScore spreadInTicks =
     (if spreadInTicks \<le> 1.2 then 100
      else if spreadInTicks \<le> 2.0 then 80
      else if spreadInTicks \<le> 3.0 then 50
      else 20)"

definition timeScore :: "jsnum \<Rightarrow> real" where
  "timeScore hoursToRes =
     (if js_lt hoursToRes 72 then 40
      else if js_lt hoursToRes (24 * 7) then 70
      else if js_lt hoursToRes (24 * 60) then 100
      else if js_lt hoursToRes (24 * 180) then 80
      else 60)"

text \<open>\<^verbatim>\<open>Math.max(0, 100 - (distFrom50 * 180))\<close>, before the drift multiplier.\<close>

definition reversionBase :: "real \<Rightarrow> real" where
  "reversionBase midPrice = max 0 (100 - \<bar>midPrice - 0.5\<bar> * 180)"

definition hoursToResolution :: "market \<Rightarrow> real \<Rightarrow> jsnum" where
  "hoursToResolution m now = js_map (\<lambda>e. (e - now) / 3600000) (endDate m)"

definition parseMidPrice :: "market \<Rightarrow> jsnum" where
  "parseMidPrice m = (case outcomePrices m of Malformed \<Rightarrow> Num 0.5 | FirstElem v \<Rightarrow> v)"

definition calculateScalpingScore ::
  "market \<Rightarrow> real \<Rightarrow> real \<Rightarrow> real \<Rightarrow> real \<Rightarrow> real \<Rightarrow> real \<Rightarrow> score_result" where
  "calculateScalpingScore m sprd bidDepth1 askDepth1 bidDepth5 askDepth5 now =
     (let tickSize = js_or (orderPriceMinTickSize m) 0.01;
          spreadInTicks = sprd / tickSize;
          lowerQuestion = toLowerCase (question m)
      in if feesEnabled m then excluded ''Fees enabled''
         else if spreadInTicks > 5 then excluded ''Spread too wide (>5 ticks)''
         else case List.find (\<lambda>kw. includesStr lowerQuestion kw) JUMP_RISK_KEYWORDS of
           Some matchedJumpRisk \<Rightarrow> excluded (''Jump risk keyword: '' @ quoted matchedJumpRisk)
         | None \<Rightarrow>
         (case List.find (\<lambda>kw. includesStr lowerQuestion kw) STRUCTURAL_DECAY_KEYWORDS of
           Some matchedDecay \<Rightarrow> excluded (''Structural decay keyword: '' @ quoted matchedDecay)
         | None \<Rightarrow>
         (let midPrice = parseMidPrice m
          in if js_lt midPrice 0.08 \<or> js_gt midPrice 0.92 then excluded (priceAtEdgeReason midPrice)
             else let hoursToRes = hoursToResolution m now
             in if js_lt hoursToRes 48 then excluded ''Less than 48 hours to resolution''
             else if bidDepth1 = 0 \<or> askDepth1 = 0 then excluded ''One-sided or empty book''
             else let driftMultiplier =
                        calculateDriftPenalty midPrice (js_or (oneWeekPriceChange m) 0)
             in if driftMultiplier = 0 then excluded ''Directional drift toward edge''
             else let jumpRiskMultiplier =
                        calculateJumpRiskPenalty (question m) (Num (js_or (oneWeekPriceChange m) 0))
             in if jumpRiskMultiplier = 0 then excluded ''High weekly volatility''
             else let volumeChurnScore = calculateVolumeChurnScore (volume24hr m) (volume1wk m);
                      reversionScore = js_map (\<lambda>p. reversionBase p * driftMultiplier) midPrice;
                      depthScore =
                        calculateDepthQualityScore bidDepth1 askDepth1 bidDepth5 askDepth5;
                      eventPenalty = calculateEventResolutionPenalty (question m);
                      rawScore = js_map (\<lambda>r. spreadScore spreadInTicks * 0.25
                                              + volumeChurnScore * 0.25
                                              + r * 0.20
                                              + depthScore * 0.15
                                              + timeScore hoursToRes * 0.10) reversionScore;
                      finalScore = js_map (\<lambda>r. r * eventPenalty * jumpRiskMultiplier) rawScore
                  in \<lparr>score = js_map (\<lambda>f. toFixed2 (max 0 f)) finalScore,
                      exclusionReason = None\<rparr>)))"

subsection \<open>The per-market step of getScalpingMarkets\<close>

text \<open>
  The fields of the \<^verbatim>\<open>processed\<close> object that the order book decides (the others copy
  the market). \<open>None\<close> is \<^verbatim>\<open>null\<close>. \<open>p_exclusionReason\<close> is \<^verbatim>\<open>processed.exclusionReason\<close>,
  the fields \<open>d_...\<close> are those of \<^verbatim>\<open>processed.details\<close>.
\<close>

record processed =
  p_market :: market
  p_tickSize :: real
  p_spread :: "real option"
  p_bestBid :: "real option"
  p_bestAsk :: "real option"
  p_scalpingScore :: jsnum
  p_exclusionReason :: "string option"
  d_spreadInTicks :: real
  d_depth1Tick :: real
  d_depth3Tick :: real
  d_depth5Tick :: real
  d_daysToRes :: jsnum
  d_bidDepth1 :: real
  d_askDepth1 :: real
  d_bidDepth5 :: real
  d_askDepth5 :: real

datatype side = Bids | Asks

text \<open>\<^verbatim>\<open>[...book.bids].sort((a, b) => b.price - a.price)\<close> and its ascending twin: stable
  sorts on the parsed price.\<close>

definition sortBids :: "level list \<Rightarrow> level list" where
  "sortBids ls = sort_key (\<lambda>l. - price l) ls"

definition sortAsks :: "level list \<Rightarrow> level list" where
  "sortAsks ls = sort_key price ls"

text \<open>\<^verbatim>\<open>getDepth\<close> closes over the market and the two sorted sides.\<close>

definition getDepth ::
  "market \<Rightarrow> level list \<Rightarrow> level list \<Rightarrow> real \<Rightarrow> side \<Rightarrow> real \<Rightarrow> real" where
  "getDepth m sortedBids sortedAsks ticks sd basePrice =
     (let arr = (if sd = Bids then sortedBids else sortedAsks);
          tickSize = js_or (orderPriceMinTickSize m) 0.01;
          limitPrice = (if sd = Bids then basePrice - ticks * tickSize
                        else basePrice + ticks * tickSize)
      in foldl (\<lambda>acc item. acc + size item) 0
           (filter (\<lambda>item. let p = price item
                           in if sd = Bids then p \<ge> limitPrice else p \<le> limitPrice) arr))"

text \<open>\<^verbatim>\<open>parseFloat(x.toFixed(1))\<close>, for either sign.\<close>

definition toFixed1Num :: "real \<Rightarrow> real" where
  "toFixed1Num x = sgn x * real_of_int \<lfloor>\<bar>x\<bar> * 10 + 1 / 2\<rfloor> / 10"

definition initialProcessed :: "market \<Rightarrow> real \<Rightarrow> processed" where
  "initialProcessed m now =
     \<lparr>p_market = m,
      p_tickSize = js_or (orderPriceMinTickSize m) 0.01,
      p_spread = None, p_bestBid = None, p_bestAsk = None,
      p_scalpingScore = Num 0,
      p_exclusionReason = None,
      d_spreadInTicks = 0, d_depth1Tick = 0, d_depth3Tick = 0, d_depth5Tick = 0,
      d_daysToRes = js_map (\<lambda>e. toFixed1Num ((e - now) / 86400000)) (endDate m),
      d_bidDepth1 = 0, d_askDepth1 = 0, d_bidDepth5 = 0, d_askDepth5 = 0\<rparr>"

text \<open>
  The callback of \<^verbatim>\<open>response.data.map\<close>. \<open>fetchBook\<close> is the HTTP call for one token
  id, \<open>None\<close> when it throws; the \<^verbatim>\<open>catch\<close> then leaves \<open>processed\<close> as initialised.
  The clock reads of one pass are taken at one instant \<open>now\<close>.
\<close>

definition enhance :: "(string \<Rightarrow> order_book option) \<Rightarrow> real \<Rightarrow> market \<Rightarrow> processed" where
  "enhance fetchBook now m =
     (let processed0 = initialProcessed m now;
          tokenIds = (case clobTokenIds m of None \<Rightarrow> [] | Some ids \<Rightarrow> ids)
      in if tokenIds \<noteq> [] then
           (case fetchBook (hd tokenIds) of
              None \<Rightarrow> processed0
            | Some book \<Rightarrow>
                if bids book \<noteq> [] \<and> asks book \<noteq> [] then
                  (let sortedBids = sortBids (bids book);
                       sortedAsks = sortAsks (asks book);
                       bestBid = price (hd sortedBids);
                       bestAsk = price (hd sortedAsks);
                       sprd = bestAsk - bestBid;
                       bidDepth1 = getDepth m sortedBids sortedAsks 1 Bids bestBid;
                       askDepth1 = getDepth m sortedBids sortedAsks 1 Asks bestAsk;
                       bidDepth3 = getDepth m sortedBids sortedAsks 3 Bids bestBid;
                       askDepth3 = getDepth m sortedBids sortedAsks 3 Asks bestAsk;
                       bidDepth5 = getDepth m sortedBids sortedAsks 5 Bids bestBid;
                       askDepth5 = getDepth m sortedBids sortedAsks 5 Asks bestAsk;
                       scoreResult = calculateScalpingScore m sprd
                                       bidDepth1 askDepth1 bidDepth5 askDepth5 now
                   in processed0\<lparr>
                        p_spread := Some sprd,
                        p_bestBid := Some bestBid,
                        p_bestAsk := Some bestAsk,
                        d_spreadInTicks := sprd / js_or (orderPriceMinTickSize m) 0.01,
                        d_depth1Tick := bidDepth1 + askDepth1,
                        d_depth3Tick := bidDepth3 + askDepth3,
                        d_depth5Tick := bidDepth5 + askDepth5,
                        d_bidDepth1 := bidDepth1,
                        d_askDepth1 := askDepth1,
                        d_bidDepth5 := bidDepth5,
                        d_askDepth5 := askDepth5,
                        p_scalpingScore := score scoreResult,
                        p_exclusionReason := exclusionReason scoreResult\<rparr>)
                else processed0)
         else processed0)"

text \<open>
  \<^verbatim>\<open>results.sort((a, b) => b.scalpingScore - a.scalpingScore)\<close>: a stable sort, as an
  insertion sort. The comparator's \<^verbatim>\<open>NaN\<close> counts as 0, as \<^verbatim>\<open>Array.prototype.sort\<close> reads it.
\<close>

fun compareScore :: "processed \<Rightarrow> processed \<Rightarrow> real" where
  "compareScore a b =
     (case (p_scalpingScore b, p_scalpingScore a) of
        (Num y, Num x) \<Rightarrow> y - x
      | _ \<Rightarrow> 0)"

fun insertByScore :: "processed \<Rightarrow> processed list \<Rightarrow> processed list" where
  "insertByScore x [] = [x]"
| "insertByScore x (y # ys) =
     (if compareScore x y > 0 then y # insertByScore x ys else x # y # ys)"

definition sortByScore :: "processed list \<Rightarrow> processed list" where
  "sortByScore rs = foldr insertByScore rs []"

text \<open>\<open>response\<close> is the market-listing call: \<open>None\<close> when it throws.\<close>

definition getScalpingMarkets ::
  "market list option \<Rightarrow> (string \<Rightarrow> order_book option) \<Rightarrow> real \<Rightarrow> processed list" where
  "getScalpingMarkets response fetchBook now =
     (case response of
        None \<Rightarrow> []
      | Some ms \<Rightarrow> sortByScore (map (enhance fetchBook now) ms))"

subsection \<open>The exclusion ladder as the specification words it\<close>

text \<open>
  The nine hard-exclusion checks of the specification, in its order, each yielding
  its reason when it matches; the classifier reports the first match.
\<close>

definition spec_hardExclusionChecks ::
  "market \<Rightarrow> real \<Rightarrow> real \<Rightarrow> real \<Rightarrow> real \<Rightarrow> string option list" where
  "spec_hardExclusionChecks m sprd topBid topAsk now =
     (let lowerQ = toLowerCase (question m);
          mid = parseMidPrice m;
          change = js_or (oneWeekPriceChange m) 0
      in [if feesEnabled m then Some ''Fees enabled'' else None,
          if sprd / js_or (orderPriceMinTickSize m) 0.01 > 5
            then Some ''Spread too wide (>5 ticks)'' else None,
          map_option (\<lambda>kw. ''Jump risk keyword: '' @ quoted kw)
            (List.find (\<lambda>kw. includesStr lowerQ kw) JUMP_RISK_KEYWORDS),
          map_option (\<lambda>kw. ''Structural decay keyword: '' @ quoted kw)
            (List.find (\<lambda>kw. includesStr lowerQ kw) STRUCTURAL_DECAY_KEYWORDS),
          if js_lt mid 0.08 \<or> js_gt mid 0.92 then Some (priceAtEdgeReason mid) else None,
          if js_lt (hoursToResolution m now) 48
            then Some ''Less than 48 hours to resolution'' else None,
          if topBid = 0 \<or> topAsk = 0 then Some ''One-sided or empty book'' else None,
          if calculateDriftPenalty mid change = 0
            then Some ''Directional drift toward edge'' else None,
          if calculateJumpRiskPenalty (question m) (Num change) = 0
            then Some ''High weekly volatility'' else None])"

fun spec_firstMatch :: "string option list \<Rightarrow> string option" where
  "spec_firstMatch [] = None"
| "spec_firstMatch (Some r # rest) = Some r"
| "spec_firstMatch (None # rest) = spec_firstMatch rest"

text \<open>
  The composite of an eligible market whose price parsed to the number \<open>p\<close>, written
  as one expression: the weighted sum of the five components, times the event and the
  jump-risk multipliers.
\<close>

definition compositeOf ::
  "market \<Rightarrow> real \<Rightarrow> real \<Rightarrow> real \<Rightarrow> real \<Rightarrow> real \<Rightarrow> real \<Rightarrow> real \<Rightarrow> real" where
  "compositeOf m sprd b1 a1 b5 a5 now p =
     (spreadScore (sprd / js_or (orderPriceMinTickSize m) 0.01) * 0.25
      + calculateVolumeChurnScore (volume24hr m) (volume1wk m) * 0.25
      + (max 0 (100 - 180 * \<bar>p - 0.5\<bar>)
           * calculateDriftPenalty (Num p) (js_or (oneWeekPriceChange m) 0)) * 0.20
      + calculateDepthQualityScore b1 a1 b5 a5 * 0.15
      + timeScore (hoursToResolution m now) * 0.10)
     * calculateEventResolutionPenalty (question m)
     * calculateJumpRiskPenalty (question m) (Num (js_or (oneWeekPriceChange m) 0))"

text \<open>Two clock readings fall on the same side of every time threshold the scorer uses.\<close>

definition sameTimeBand :: "jsnum \<Rightarrow> jsnum \<Rightarrow> bool" where
  "sameTimeBand h1 h2 =
     list_all (\<lambda>t. js_lt h1 t = js_lt h2 t) [48, 72, 24 * 7, 24 * 60, 24 * 180]"

subsection \<open>Concrete markets and order books\<close>

definition rainQuestion :: string where
  "rainQuestion = ''Will it rain in Paris tomorrow?''"

definition championshipQuestion :: string where
  "championshipQuestion = ''Will Team X win the championship?''"

text \<open>A market that passes every exclusion check 200 hours before its end date.\<close>

definition rainMarket :: market where
  "rainMarket =
     \<lparr>ident = ''1'', question = rainQuestion, slug = ''rain-in-paris'',
      volume24hr = 99999, volume1wk = 699993,
      outcomePrices = FirstElem (Num 0.5),
      clobTokenIds = Some [''token-yes'', ''token-no''],
      endDate = Num 720000000,
      orderPriceMinTickSize = Num 0.01,
      feesEnabled = False,
      liquidity = Num 1000,
      oneWeekPriceChange = Num 0\<rparr>"

definition championshipMarket :: market where
  "championshipMarket =
     rainMarket\<lparr>question := championshipQuestion, outcomePrices := FirstElem (Num 0.04)\<rparr>"

definition crossedBook :: order_book where
  "crossedBook =
     \<lparr>bids = [\<lparr>price = 0.51, size = 10\<rparr>], asks = [\<lparr>price = 0.50, size = 10\<rparr>]\<rparr>"

definition emptyBook :: order_book where
  "emptyBook = \<lparr>bids = [], asks = []\<rparr>"

text \<open>A deep, balanced book one tick wide, with a second layer on each side.\<close>

definition deepBook :: order_book where
  "deepBook =
     \<lparr>bids = [\<lparr>price = 0.48, size = 499\<rparr>, \<lparr>price = 0.50, size = 4500.5\<rparr>],
      asks = [\<lparr>price = 0.51, size = 4500.5\<rparr>, \<lparr>price = 0.53, size = 499\<rparr>]\<rparr>"

text \<open>Two fetch outcomes: every call throws, or every call returns the given book.\<close>

definition fetchNothing :: "string \<Rightarrow> order_book option" where
  "fetchNothing tokenId = None"

definition fetchAlways :: "order_book \<Rightarrow> string \<Rightarrow> order_book option" where
  "fetchAlways book tokenId = Some book"

definition layeredBids :: "level list" where
  "layeredBids =
     [\<lparr>price = 0.52, size = 100\<rparr>, \<lparr>price = 0.50, size = 40\<rparr>, \<lparr>price = 0.47, size = 5\<rparr>]"

section \<open>Properties\<close>

subsection \<open>Substring search and the example questions\<close>

lemma startsWith_iff: "startsWith s k \<longleftrightarrow> (\<exists>post. s = k @ post)"
  by (induction s k rule: startsWith.induct) auto

text \<open>\<open>includesStr\<close> is substring containment.\<close>

lemma test_lit_iff: "test (lit kw accept) s \<longleftrightarrow> (\<exists>pre post. s = pre @ kw @ post)"
proof (induction s)
  case Nil
  then show ?case by (auto simp: lit_def accept_def startsWith_iff)
next
  case (Cons c cs)
  show ?case
  proof
    assume "test (lit kw accept) (c # cs)"
    then consider "startsWith (c # cs) kw" | "test (lit kw accept) cs"
      by (auto simp: lit_def accept_def)
    then show "\<exists>pre post. c # cs = pre @ kw @ post"
    proof cases
      case 1
      then obtain post where "c # cs = kw @ post" by (auto simp: startsWith_iff)
      then have "c # cs = [] @ kw @ post" by simp
      then show ?thesis by blast
    next
      case 2
      with Cons obtain pre post where "cs = pre @ kw @ post" by blast
      then have "c # cs = (c # pre) @ kw @ post" by simp
      then show ?thesis by blast
    qed
  next
    assume "\<exists>pre post. c # cs = pre @ kw @ post"
    then obtain pre post where e: "c # cs = pre @ kw @ post" by blast
    show "test (lit kw accept) (c # cs)"
    proof (cases pre)
      case Nil
      with e have "startsWith (c # cs) kw" by (auto simp: startsWith_iff)
      then show ?thesis by (simp add: lit_def accept_def)
    next
      case (Cons d ds)
      with e have "cs = ds @ kw @ post" by simp
      with Cons.IH have "test (lit kw accept) cs" by blast
      then show ?thesis by simp
    qed
  qed
qed

lemma includesStr_iff: "includesStr s kw \<longleftrightarrow> (\<exists>pre post. s = pre @ kw @ post)"
  by (simp add: includesStr_def test_lit_iff)

lemma rain_lower: "toLowerCase rainQuestion = ''will it rain in paris tomorrow?''"
  by (simp add: rainQuestion_def toLowerCase_def toLowerChar_def)

lemma rain_no_jump:
  "List.find (\<lambda>kw. includesStr ''will it rain in paris tomorrow?'' kw) JUMP_RISK_KEYWORDS = None"
  by (simp add: JUMP_RISK_KEYWORDS_def includesStr_def lit_def accept_def)

lemma rain_no_jump_ex:
  "\<not> list_ex (\<lambda>kw. includesStr ''will it rain in paris tomorrow?'' kw) JUMP_RISK_KEYWORDS"
  using rain_no_jump by (simp add: find_None_iff list_ex_iff)

lemma rain_no_decay:
  "List.find (\<lambda>kw. includesStr ''will it rain in paris tomorrow?'' kw) STRUCTURAL_DECAY_KEYWORDS
     = None"
  by (simp add: STRUCTURAL_DECAY_KEYWORDS_def includesStr_def lit_def accept_def)

lemma rain_event: "calculateEventResolutionPenalty rainQuestion = 1"
  by (simp add: calculateEventResolutionPenalty_def rain_lower countdownPatterns_def
      singleEventPatterns_def monthAfter_def months_def willThen_def lit_def accept_def
      optDigit_def isDigit_def isLineTerminator_def)

lemma championship_lower:
  "toLowerCase championshipQuestion = ''will team x win the championship?''"
  by (simp add: championshipQuestion_def toLowerCase_def toLowerChar_def)

lemma championship_no_jump:
  "List.find (\<lambda>kw. includesStr ''will team x win the championship?'' kw) JUMP_RISK_KEYWORDS
     = None"
  by (simp add: JUMP_RISK_KEYWORDS_def includesStr_def lit_def accept_def)

lemma championship_decay:
  "List.find (\<lambda>kw. includesStr ''will team x win the championship?'' kw)
     STRUCTURAL_DECAY_KEYWORDS = Some ''win the championship''"
  by (simp add: STRUCTURAL_DECAY_KEYWORDS_def includesStr_def lit_def accept_def)

subsection \<open>The scorer as a first-match ladder\<close>

lemma excluded_sel [simp]:
  "score (excluded r) = Num 0" "exclusionReason (excluded r) = Some r"
  by (simp_all add: excluded_def)

lemma calculateScalpingScore_eq:
  "calculateScalpingScore m sprd b1 a1 b5 a5 now =
     (case spec_firstMatch (spec_hardExclusionChecks m sprd b1 a1 now) of
        Some r \<Rightarrow> excluded r
      | None \<Rightarrow> \<lparr>score = js_map (\<lambda>p. toFixed2 (max 0 (compositeOf m sprd b1 a1 b5 a5 now p)))
                            (parseMidPrice m),
                 exclusionReason = None\<rparr>)"
  by (cases "parseMidPrice m")
     (simp_all add: calculateScalpingScore_def spec_hardExclusionChecks_def compositeOf_def
        reversionBase_def Let_def mult.commute split: option.splits)

lemma reason_ladder:
  "exclusionReason (calculateScalpingScore m sprd b1 a1 b5 a5 now)
     = spec_firstMatch (spec_hardExclusionChecks m sprd b1 a1 now)"
  by (simp add: calculateScalpingScore_eq split: option.splits)

lemma excluded_score_zero:
  "exclusionReason (calculateScalpingScore m sprd b1 a1 b5 a5 now) \<noteq> None
   \<Longrightarrow> score (calculateScalpingScore m sprd b1 a1 b5 a5 now) = Num 0"
  by (simp add: calculateScalpingScore_eq split: option.splits)

lemma eligible_score:
  "exclusionReason (calculateScalpingScore m sprd b1 a1 b5 a5 now) = None
   \<Longrightarrow> score (calculateScalpingScore m sprd b1 a1 b5 a5 now)
         = js_map (\<lambda>p. toFixed2 (max 0 (compositeOf m sprd b1 a1 b5 a5 now p))) (parseMidPrice m)"
  by (simp add: calculateScalpingScore_eq split: option.splits)

subsection \<open>The jump-risk volatility penalty\<close>

text \<open>
  Claim C7. \<^verbatim>\<open>calculateJumpRiskPenalty\<close> returns exactly 0 when the lower-cased question
  contains a jump-risk keyword; otherwise, by the absolute one-week change \<open>c\<close>: more
  than 0.30 gives exactly 0.2, more than 0.20 gives 0.5, more than 0.10 gives 0.8, and
  anything else (a \<^verbatim>\<open>NaN\<close> change included, which \<^verbatim>\<open>|| 0\<close> turns into 0) gives 1.0. For a
  change of 0.35 and a question without keywords the result is exactly 0.2.
\<close>

theorem jumpRiskPenalty_values:
  "(list_ex (\<lambda>kw. includesStr (toLowerCase q) kw) JUMP_RISK_KEYWORDS \<longrightarrow>
      calculateJumpRiskPenalty q change = 0)
   \<and> (\<not> list_ex (\<lambda>kw. includesStr (toLowerCase q) kw) JUMP_RISK_KEYWORDS \<longrightarrow>
        (\<bar>c\<bar> > 0.30 \<longrightarrow> calculateJumpRiskPenalty q (Num c) = 0.2)
      \<and> (\<bar>c\<bar> > 0.20 \<and> \<bar>c\<bar> \<le> 0.30 \<longrightarrow> calculateJumpRiskPenalty q (Num c) = 0.5)
      \<and> (\<bar>c\<bar> > 0.10 \<and> \<bar>c\<bar> \<le> 0.20 \<longrightarrow> calculateJumpRiskPenalty q (Num c) = 0.8)
      \<and> (\<bar>c\<bar> \<le> 0.10 \<longrightarrow> calculateJumpRiskPenalty q (Num c) = 1.0)
      \<and> calculateJumpRiskPenalty q NaN = 1.0)
   \<and> calculateJumpRiskPenalty rainQuestion (Num 0.35) = 0.2"
proof -
  have "calculateJumpRiskPenalty rainQuestion (Num 0.35) = 0.2"
    using rain_no_jump_ex by (simp add: calculateJumpRiskPenalty_def rain_lower)
  then show ?thesis
    by (simp add: calculateJumpRiskPenalty_def Let_def)
qed

theorem jumpRiskPenalty_values_witness:
  "\<not> list_ex (\<lambda>kw. includesStr (toLowerCase rainQuestion) kw) JUMP_RISK_KEYWORDS
   \<and> \<bar>0.25 :: real\<bar> > 0.20 \<and> \<bar>0.25 :: real\<bar> \<le> 0.30
   \<and> calculateJumpRiskPenalty rainQuestion (Num 0.25) = 0.5"
  using jumpRiskPenalty_values [of rainQuestion "Num 0.25" "0.25"] rain_no_jump_ex
  by (simp add: rain_lower)

subsection \<open>The example market is eligible\<close>

lemma rain_checks:
  assumes "sprd \<le> 0.05" "b1 \<noteq> 0" "a1 \<noteq> 0" "v = NaN \<or> v = Num 0.5"
  shows "spec_firstMatch
           (spec_hardExclusionChecks (rainMarket\<lparr>outcomePrices := FirstElem v\<rparr>) sprd b1 a1 0)
         = None"
  using assms rain_no_jump_ex
  by (auto simp: spec_hardExclusionChecks_def Let_def rainMarket_def rain_lower rain_no_jump
      rain_no_decay parseMidPrice_def hoursToResolution_def calculateDriftPenalty_def
      calculateJumpRiskPenalty_def)

lemma rainMarket_prices: "rainMarket\<lparr>outcomePrices := FirstElem (Num 0.5)\<rparr> = rainMarket"
  by (simp add: rainMarket_def)

lemma rain_eligible:
  assumes "sprd \<le> 0.05" "b1 \<noteq> 0" "a1 \<noteq> 0"
  shows "exclusionReason (calculateScalpingScore rainMarket sprd b1 a1 b5 a5 0) = None"
proof -
  have "spec_firstMatch
          (spec_hardExclusionChecks (rainMarket\<lparr>outcomePrices := FirstElem (Num 0.5)\<rparr>)
             sprd b1 a1 0) = None"
    using assms by (intro rain_checks) simp_all
  then show ?thesis
    unfolding rainMarket_prices reason_ladder .
qed

subsection \<open>Order of the hard exclusions\<close>

lemma priceAtEdge_head: "\<exists>rest. priceAtEdgeReason v = CHR ''P'' # rest"
  by (cases v) simp_all

text \<open>
  Claim C1. For every market and every spread and depth passed to
  \<^verbatim>\<open>calculateScalpingScore\<close>, the result is either an exclusion with a reason and score 0
  or an eligible result with a score and no reason, and the reason is the first match of
  the nine checks in the order fees, spread above 5 ticks, jump-risk keyword,
  structural-decay keyword, price outside [0.08, 0.92], fewer than 48 hours to
  resolution, zero depth on either side, drift penalty 0, volatility penalty 0. When
  the checks before it do not match, a structural-decay keyword is the reason whatever
  the price is, and a question with such a keyword is never reported as a price at the
  edge.
\<close>

theorem exclusion_ladder_first_match:
  "calculateScalpingScore m sprd b1 a1 b5 a5 now =
     (case spec_firstMatch (spec_hardExclusionChecks m sprd b1 a1 now) of
        Some r \<Rightarrow> \<lparr>score = Num 0, exclusionReason = Some r\<rparr>
      | None \<Rightarrow> \<lparr>score = js_map (\<lambda>p. toFixed2 (max 0 (compositeOf m sprd b1 a1 b5 a5 now p)))
                            (parseMidPrice m),
                 exclusionReason = None\<rparr>)
   \<and> length (spec_hardExclusionChecks m sprd b1 a1 now) = 9
   \<and> (\<not> feesEnabled m
        \<and> \<not> sprd / js_or (orderPriceMinTickSize m) 0.01 > 5
        \<and> List.find (\<lambda>kw. includesStr (toLowerCase (question m)) kw) JUMP_RISK_KEYWORDS = None
        \<and> List.find (\<lambda>kw. includesStr (toLowerCase (question m)) kw) STRUCTURAL_DECAY_KEYWORDS
            = Some kw
      \<longrightarrow> exclusionReason (calculateScalpingScore m sprd b1 a1 b5 a5 now)
            = Some (''Structural decay keyword: '' @ quoted kw))
   \<and> (List.find (\<lambda>kw. includesStr (toLowerCase (question m)) kw) STRUCTURAL_DECAY_KEYWORDS
         \<noteq> None
      \<longrightarrow> exclusionReason (calculateScalpingScore m sprd b1 a1 b5 a5 now)
            \<noteq> Some (priceAtEdgeReason (parseMidPrice m)))"
proof (intro conjI)
  show "calculateScalpingScore m sprd b1 a1 b5 a5 now =
     (case spec_firstMatch (spec_hardExclusionChecks m sprd b1 a1 now) of
        Some r \<Rightarrow> \<lparr>score = Num 0, exclusionReason = Some r\<rparr>
      | None \<Rightarrow> \<lparr>score = js_map (\<lambda>p. toFixed2 (max 0 (compositeOf m sprd b1 a1 b5 a5 now p)))
                            (parseMidPrice m),
                 exclusionReason = None\<rparr>)"
    by (simp add: calculateScalpingScore_eq excluded_def split: option.splits)
  show "length (spec_hardExclusionChecks m sprd b1 a1 now) = 9"
    by (simp add: spec_hardExclusionChecks_def Let_def)
  show "\<not> feesEnabled m
        \<and> \<not> sprd / js_or (orderPriceMinTickSize m) 0.01 > 5
        \<and> List.find (\<lambda>kw. includesStr (toLowerCase (question m)) kw) JUMP_RISK_KEYWORDS = None
        \<and> List.find (\<lambda>kw. includesStr (toLowerCase (question m)) kw) STRUCTURAL_DECAY_KEYWORDS
            = Some kw
      \<longrightarrow> exclusionReason (calculateScalpingScore m sprd b1 a1 b5 a5 now)
            = Some (''Structural decay keyword: '' @ quoted kw)"
    by (simp add: reason_ladder spec_hardExclusionChecks_def Let_def)
  obtain rest where r: "priceAtEdgeReason (parseMidPrice m) = CHR ''P'' # rest"
    using priceAtEdge_head by blast
  show "List.find (\<lambda>kw. includesStr (toLowerCase (question m)) kw) STRUCTURAL_DECAY_KEYWORDS
         \<noteq> None
      \<longrightarrow> exclusionReason (calculateScalpingScore m sprd b1 a1 b5 a5 now)
            \<noteq> Some (priceAtEdgeReason (parseMidPrice m))"
    unfolding r reason_ladder
    by (cases "List.find (\<lambda>kw. includesStr (toLowerCase (question m)) kw) JUMP_RISK_KEYWORDS")
       (auto simp: spec_hardExclusionChecks_def Let_def)
qed

theorem exclusion_ladder_first_match_witness:
  "\<not> feesEnabled championshipMarket
   \<and> \<not> 0.01 / js_or (orderPriceMinTickSize championshipMarket) 0.01 > 5
   \<and> List.find (\<lambda>kw. includesStr (toLowerCase (question championshipMarket)) kw)
        JUMP_RISK_KEYWORDS = None
   \<and> List.find (\<lambda>kw. includesStr (toLowerCase (question championshipMarket)) kw)
        STRUCTURAL_DECAY_KEYWORDS = Some ''win the championship''
   \<and> parseMidPrice championshipMarket = Num 0.04
   \<and> exclusionReason (calculateScalpingScore championshipMarket 0.01 10 10 10 10 0)
       = Some (''Structural decay keyword: '' @ quoted ''win the championship'')
   \<and> exclusionReason (calculateScalpingScore championshipMarket 0.01 10 10 10 10 0)
       \<noteq> Some (priceAtEdgeReason (Num 0.04))"
proof -
  have q: "toLowerCase (question championshipMarket) = ''will team x win the championship?''"
    by (simp add: championshipMarket_def championship_lower)
  have h1: "\<not> feesEnabled championshipMarket"
    by (simp add: championshipMarket_def rainMarket_def)
  have h2: "\<not> 0.01 / js_or (orderPriceMinTickSize championshipMarket) 0.01 > 5"
    by (simp add: championshipMarket_def rainMarket_def)
  have h3: "List.find (\<lambda>kw. includesStr (toLowerCase (question championshipMarket)) kw)
        JUMP_RISK_KEYWORDS = None"
    by (simp only: q championship_no_jump)
  have h4: "List.find (\<lambda>kw. includesStr (toLowerCase (question championshipMarket)) kw)
        STRUCTURAL_DECAY_KEYWORDS = Some ''win the championship''"
    by (simp only: q championship_decay)
  have h5: "parseMidPrice championshipMarket = Num 0.04"
    by (simp add: championshipMarket_def parseMidPrice_def)
  note T = exclusion_ladder_first_match
          [where m = championshipMarket and sprd = "0.01" and ?b1.0 = 10 and ?a1.0 = 10
             and ?b5.0 = 10 and ?a5.0 = 10 and now = 0 and kw = "''win the championship''"]
  from T h1 h2 h3 h4
  have r1: "exclusionReason (calculateScalpingScore championshipMarket 0.01 10 10 10 10 0)
       = Some (''Structural decay keyword: '' @ quoted ''win the championship'')"
    by blast
  have h4': "List.find (\<lambda>kw. includesStr (toLowerCase (question championshipMarket)) kw)
        STRUCTURAL_DECAY_KEYWORDS \<noteq> None"
    by (simp only: h4) simp
  from T h4'
  have "exclusionReason (calculateScalpingScore championshipMarket 0.01 10 10 10 10 0)
       \<noteq> Some (priceAtEdgeReason (parseMidPrice championshipMarket))"
    by blast
  then have r2: "exclusionReason (calculateScalpingScore championshipMarket 0.01 10 10 10 10 0)
       \<noteq> Some (priceAtEdgeReason (Num 0.04))"
    unfolding h5 .
  from h1 h2 h3 h4 h5 r1 r2 show ?thesis by blast
qed

subsection \<open>The drift penalty and its single use\<close>

text \<open>
  Claim C6. \<^verbatim>\<open>calculateDriftPenalty\<close> returns exactly 0 for a price below 0.15 with a
  one-week change below -0.05, exactly 0 for a price above 0.85 with a change above
  0.05, exactly 0.5 for a price in either edge band without the matching drift, and
  inside the bands exactly 1.2 when the absolute change is below 0.03 and 1.0
  otherwise. In the composite of an eligible market the multiplier occurs once, as the
  factor of the mean-reversion component max(0, 100 - 180 |p - 0.5|); the other four
  components and the two final multipliers do not take it.
\<close>

theorem driftPenalty_values_and_single_use:
  "(p < 0.15 \<and> c < - 0.05 \<longrightarrow> calculateDriftPenalty (Num p) c = 0)
   \<and> (p > 0.85 \<and> c > 0.05 \<longrightarrow> calculateDriftPenalty (Num p) c = 0)
   \<and> ((p < 0.15 \<and> \<not> c < - 0.05) \<or> (p > 0.85 \<and> \<not> c > 0.05) \<longrightarrow>
        calculateDriftPenalty (Num p) c = 0.5)
   \<and> (0.15 \<le> p \<and> p \<le> 0.85 \<and> \<bar>c\<bar> < 0.03 \<longrightarrow> calculateDriftPenalty (Num p) c = 1.2)
   \<and> (0.15 \<le> p \<and> p \<le> 0.85 \<and> \<not> \<bar>c\<bar> < 0.03 \<longrightarrow> calculateDriftPenalty (Num p) c = 1.0)
   \<and> (parseMidPrice m = Num p
        \<and> exclusionReason (calculateScalpingScore m sprd b1 a1 b5 a5 now) = None \<longrightarrow>
        score (calculateScalpingScore m sprd b1 a1 b5 a5 now)
        = Num (toFixed2 (max 0
            ((spreadScore (sprd / js_or (orderPriceMinTickSize m) 0.01) * 0.25
              + calculateVolumeChurnScore (volume24hr m) (volume1wk m) * 0.25
              + (max 0 (100 - 180 * \<bar>p - 0.5\<bar>)
                   * calculateDriftPenalty (Num p) (js_or (oneWeekPriceChange m) 0)) * 0.20
              + calculateDepthQualityScore b1 a1 b5 a5 * 0.15
              + timeScore (hoursToResolution m now) * 0.10)
             * calculateEventResolutionPenalty (question m)
             * calculateJumpRiskPenalty (question m) (Num (js_or (oneWeekPriceChange m) 0))))))"
proof -
  have cases5:
    "(p < 0.15 \<and> c < - 0.05 \<longrightarrow> calculateDriftPenalty (Num p) c = 0)
     \<and> (p > 0.85 \<and> c > 0.05 \<longrightarrow> calculateDriftPenalty (Num p) c = 0)
     \<and> ((p < 0.15 \<and> \<not> c < - 0.05) \<or> (p > 0.85 \<and> \<not> c > 0.05) \<longrightarrow>
          calculateDriftPenalty (Num p) c = 0.5)
     \<and> (0.15 \<le> p \<and> p \<le> 0.85 \<and> \<bar>c\<bar> < 0.03 \<longrightarrow> calculateDriftPenalty (Num p) c = 1.2)
     \<and> (0.15 \<le> p \<and> p \<le> 0.85 \<and> \<not> \<bar>c\<bar> < 0.03 \<longrightarrow> calculateDriftPenalty (Num p) c = 1.0)"
    by (simp add: calculateDriftPenalty_def)
  have once: "parseMidPrice m = Num p
        \<and> exclusionReason (calculateScalpingScore m sprd b1 a1 b5 a5 now) = None \<longrightarrow>
        score (calculateScalpingScore m sprd b1 a1 b5 a5 now)
        = Num (toFixed2 (max 0 (compositeOf m sprd b1 a1 b5 a5 now p)))"
    by (simp add: eligible_score)
  from cases5 once [unfolded compositeOf_def] show ?thesis
    by blast
qed

theorem driftPenalty_values_and_single_use_witness:
  "(0.15 :: real) \<le> 0.5 \<and> (0.5 :: real) \<le> 0.85 \<and> \<bar>0 :: real\<bar> < 0.03
   \<and> calculateDriftPenalty (Num 0.5) 0 = 1.2
   \<and> parseMidPrice rainMarket = Num 0.5
   \<and> exclusionReason (calculateScalpingScore rainMarket 0.01 10 10 10 10 0) = None
   \<and> score (calculateScalpingScore rainMarket 0.01 10 10 10 10 0)
       = Num (toFixed2 (max 0 (compositeOf rainMarket 0.01 10 10 10 10 0 0.5)))"
proof -
  have p: "parseMidPrice rainMarket = Num 0.5"
    by (simp add: parseMidPrice_def rainMarket_def)
  have e: "exclusionReason (calculateScalpingScore rainMarket 0.01 10 10 10 10 0) = None"
    by (rule rain_eligible) simp_all
  note T = driftPenalty_values_and_single_use
      [where p = "0.5" and c = 0 and m = rainMarket and sprd = "0.01" and ?b1.0 = 10
         and ?a1.0 = 10 and ?b5.0 = 10 and ?a5.0 = 10 and now = 0, folded compositeOf_def]
  have d: "calculateDriftPenalty (Num 0.5) 0 = 1.2"
    using T by simp
  from T p e have s: "score (calculateScalpingScore rainMarket 0.01 10 10 10 10 0)
       = Num (toFixed2 (max 0 (compositeOf rainMarket 0.01 10 10 10 10 0 0.5)))"
    by blast
  from p e d s show ?thesis by simp
qed

subsection \<open>Markets without a usable order book\<close>

lemma enhance_unavailable:
  "clobTokenIds m = Some (t # ts) \<Longrightarrow>
   fetchBook t = None \<or> (\<exists>book. fetchBook t = Some book \<and> (bids book = [] \<or> asks book = []))
   \<Longrightarrow> enhance fetchBook now m = initialProcessed m now"
  by (auto simp: enhance_def Let_def)

lemma mset_insertByScore: "mset (insertByScore x ys) = add_mset x (mset ys)"
  by (induction ys) auto

lemma mset_sortByScore: "mset (sortByScore rs) = mset rs"
  by (induction rs) (simp_all add: sortByScore_def mset_insertByScore)

text \<open>
  Claim C4, as the code has it. When the order-book fetch of a market fails, or the
  book is empty on either side, the per-market step returns the record as initialised:
  the spread is \<^verbatim>\<open>null\<close>, the score is 0 and the exclusion reason is \<^verbatim>\<open>null\<close> (the
  scorer and its one-sided-book check are never reached). The batch is not aborted: the
  ranking holds exactly one result for every market of the listing.
\<close>

theorem unavailable_book_leaves_defaults:
  "(clobTokenIds m = Some (t # ts)
      \<and> (fetchBook t = None
           \<or> (\<exists>book. fetchBook t = Some book \<and> (bids book = [] \<or> asks book = [])))
    \<longrightarrow> enhance fetchBook now m = initialProcessed m now)
   \<and> p_spread (initialProcessed m now) = None
   \<and> p_scalpingScore (initialProcessed m now) = Num 0
   \<and> p_exclusionReason (initialProcessed m now) = None
   \<and> mset (getScalpingMarkets (Some ms) fetchBook now) = mset (map (enhance fetchBook now) ms)"
  using enhance_unavailable [of m t ts fetchBook now]
  by (simp add: initialProcessed_def getScalpingMarkets_def mset_sortByScore)

theorem unavailable_book_leaves_defaults_witness:
  "clobTokenIds rainMarket = Some (''token-yes'' # [''token-no''])
   \<and> fetchAlways emptyBook ''token-yes'' = Some emptyBook
   \<and> bids emptyBook = []
   \<and> p_spread (enhance (fetchAlways emptyBook) 0 rainMarket) = None
   \<and> p_scalpingScore (enhance (fetchAlways emptyBook) 0 rainMarket) = Num 0
   \<and> p_exclusionReason (enhance (fetchAlways emptyBook) 0 rainMarket) = None"
proof -
  have c: "clobTokenIds rainMarket = Some (''token-yes'' # [''token-no''])"
    by (simp add: rainMarket_def)
  have b: "bids emptyBook = []" by (simp add: emptyBook_def)
  have f: "fetchAlways emptyBook ''token-yes'' = Some emptyBook"
    by (simp add: fetchAlways_def)
  note T = unavailable_book_leaves_defaults
      [where m = rainMarket and t = "''token-yes''" and ts = "[''token-no'']"
         and fetchBook = "fetchAlways emptyBook" and now = 0]
  from T c b f
  have "enhance (fetchAlways emptyBook) 0 rainMarket = initialProcessed rainMarket 0"
    by blast
  with T c b f show ?thesis by simp
qed

text \<open>
  The claim as stated fails: with a failed fetch, and with an empty book, the reported
  reason is not the one-sided-book reason.
\<close>

theorem fetch_failure_reason_counterexample:
  "p_exclusionReason (enhance fetchNothing 0 rainMarket) \<noteq> Some ''One-sided or empty book''
   \<and> p_exclusionReason (enhance (fetchAlways emptyBook) 0 rainMarket)
       \<noteq> Some ''One-sided or empty book''"
  by (simp add: enhance_def Let_def rainMarket_def emptyBook_def initialProcessed_def
      fetchNothing_def fetchAlways_def)

subsection \<open>Fees\<close>

text \<open>
  Claim C5, as the code has it. \<^verbatim>\<open>calculateScalpingScore\<close> returns score 0 with the reason
  "Fees enabled" for every market with the fee flag set, whatever its other arguments
  are; and the per-market step of the ranking reports that reason for every such market
  whose order book was fetched and has both sides non-empty.
\<close>

theorem feesEnabled_excluded_when_scored:
  "(feesEnabled m \<longrightarrow>
      calculateScalpingScore m sprd b1 a1 b5 a5 now
        = \<lparr>score = Num 0, exclusionReason = Some ''Fees enabled''\<rparr>)
   \<and> (feesEnabled m \<and> clobTokenIds m = Some (t # ts) \<and> fetchBook t = Some book
        \<and> bids book \<noteq> [] \<and> asks book \<noteq> [] \<longrightarrow>
        p_exclusionReason (enhance fetchBook now m) = Some ''Fees enabled''
        \<and> p_scalpingScore (enhance fetchBook now m) = Num 0)"
  by (simp add: calculateScalpingScore_eq spec_hardExclusionChecks_def enhance_def excluded_def Let_def)

theorem feesEnabled_excluded_when_scored_witness:
  "feesEnabled (rainMarket\<lparr>feesEnabled := True\<rparr>)
   \<and> clobTokenIds (rainMarket\<lparr>feesEnabled := True\<rparr>) = Some (''token-yes'' # [''token-no''])
   \<and> fetchAlways deepBook ''token-yes'' = Some deepBook
   \<and> bids deepBook \<noteq> [] \<and> asks deepBook \<noteq> []
   \<and> calculateScalpingScore (rainMarket\<lparr>feesEnabled := True\<rparr>) 0.01 10 10 10 10 0
       = \<lparr>score = Num 0, exclusionReason = Some ''Fees enabled''\<rparr>
   \<and> p_exclusionReason (enhance (fetchAlways deepBook) 0 (rainMarket\<lparr>feesEnabled := True\<rparr>))
       = Some ''Fees enabled''"
proof -
  have f: "feesEnabled (rainMarket\<lparr>feesEnabled := True\<rparr>)" by simp
  have c: "clobTokenIds (rainMarket\<lparr>feesEnabled := True\<rparr>)
             = Some (''token-yes'' # [''token-no''])"
    by (simp add: rainMarket_def)
  have b: "bids deepBook \<noteq> []" "asks deepBook \<noteq> []" by (simp_all add: deepBook_def)
  have d: "fetchAlways deepBook ''token-yes'' = Some deepBook"
    by (simp add: fetchAlways_def)
  note T = feesEnabled_excluded_when_scored
      [where m = "rainMarket\<lparr>feesEnabled := True\<rparr>" and sprd = "0.01" and ?b1.0 = 10
         and ?a1.0 = 10 and ?b5.0 = 10 and ?a5.0 = 10 and now = 0 and t = "''token-yes''"
         and ts = "[''token-no'']" and fetchBook = "fetchAlways deepBook" and book = deepBook]
  from T f c b d show ?thesis by blast
qed

text \<open>
  The claim as stated fails for a fee-enabled market whose order book is empty: the
  ranking reports no reason for it.
\<close>

theorem feesEnabled_empty_book_counterexample:
  "feesEnabled (rainMarket\<lparr>feesEnabled := True\<rparr>)
   \<and> p_exclusionReason (enhance (fetchAlways emptyBook) 0 (rainMarket\<lparr>feesEnabled := True\<rparr>))
       \<noteq> Some ''Fees enabled''"
  by (simp add: enhance_def Let_def rainMarket_def emptyBook_def initialProcessed_def
      fetchNothing_def fetchAlways_def)

subsection \<open>Dependence on the clock\<close>

lemma sameTimeBand_timeScore: "sameTimeBand h1 h2 \<Longrightarrow> timeScore h1 = timeScore h2"
  by (simp add: sameTimeBand_def timeScore_def)

text \<open>
  Claim C9, as the code has it. The result is a function of the snapshot and of the
  clock reading \<^verbatim>\<open>Date.now()\<close>, and it depends on the clock only through the band of the
  hours to resolution: two evaluations of the same snapshot return identical results
  whenever the hours to resolution lie on the same side of 48, 72, 168, 1440 and 4320.
\<close>

theorem evaluation_depends_on_clock_band:
  assumes "sameTimeBand (hoursToResolution m now1) (hoursToResolution m now2)"
  shows "calculateScalpingScore m sprd b1 a1 b5 a5 now1
         = calculateScalpingScore m sprd b1 a1 b5 a5 now2"
proof -
  have ts: "timeScore (hoursToResolution m now1) = timeScore (hoursToResolution m now2)"
    using assms by (rule sameTimeBand_timeScore)
  have g: "js_lt (hoursToResolution m now1) 48 = js_lt (hoursToResolution m now2) 48"
    using assms by (simp add: sameTimeBand_def)
  have ch: "spec_hardExclusionChecks m sprd b1 a1 now1 = spec_hardExclusionChecks m sprd b1 a1 now2"
    by (simp add: spec_hardExclusionChecks_def Let_def g)
  have co: "compositeOf m sprd b1 a1 b5 a5 now1 = compositeOf m sprd b1 a1 b5 a5 now2"
    by (rule ext) (simp add: compositeOf_def ts)
  show ?thesis
    by (simp only: calculateScalpingScore_eq ch co)
qed

theorem evaluation_depends_on_clock_band_witness:
  "sameTimeBand (hoursToResolution rainMarket 0) (hoursToResolution rainMarket 3600000)
   \<and> calculateScalpingScore rainMarket 0.01 10 10 10 10 0
       = calculateScalpingScore rainMarket 0.01 10 10 10 10 3600000"
proof -
  have b: "sameTimeBand (hoursToResolution rainMarket 0) (hoursToResolution rainMarket 3600000)"
    by (simp add: sameTimeBand_def hoursToResolution_def rainMarket_def)
  from b evaluation_depends_on_clock_band [OF b] show ?thesis by blast
qed

text \<open>
  The claim as stated fails: the same snapshot is eligible 200 hours before its end date
  and excluded 40 hours before it.
\<close>

theorem evaluation_clock_counterexample:
  "exclusionReason (calculateScalpingScore rainMarket 0.01 10 10 10 10 0) = None
   \<and> exclusionReason (calculateScalpingScore rainMarket 0.01 10 10 10 10 576000000)
       = Some ''Less than 48 hours to resolution''"
proof -
  have late: "exclusionReason (calculateScalpingScore rainMarket 0.01 10 10 10 10 576000000)
       = Some ''Less than 48 hours to resolution''"
    using rain_no_jump_ex
    by (simp add: reason_ladder spec_hardExclusionChecks_def Let_def rainMarket_def rain_lower
        rain_no_jump rain_no_decay parseMidPrice_def hoursToResolution_def)
  have early: "exclusionReason (calculateScalpingScore rainMarket 0.01 10 10 10 10 0) = None"
    by (rule rain_eligible) simp_all
  from early late show ?thesis by (rule conjI)
qed

subsection \<open>A price that does not parse\<close>

text \<open>
  Claim C10. When reading the price throws, the mid price is 0.5 and the base of the
  mean-reversion component is 100. When the first element is not numeric,
  \<^verbatim>\<open>parseFloat\<close> returns \<^verbatim>\<open>NaN\<close> without throwing: the mid price stays \<^verbatim>\<open>NaN\<close>, the
  price-edge check does not match, and the market is eligible with the score \<^verbatim>\<open>NaN\<close>.
\<close>

theorem nan_price_not_replaced:
  "parseMidPrice (rainMarket\<lparr>outcomePrices := Malformed\<rparr>) = Num 0.5
   \<and> reversionBase 0.5 = 100
   \<and> parseMidPrice (rainMarket\<lparr>outcomePrices := FirstElem NaN\<rparr>) = NaN
   \<and> exclusionReason
        (calculateScalpingScore (rainMarket\<lparr>outcomePrices := FirstElem NaN\<rparr>) 0.01 10 10 10 10 0)
       = None
   \<and> score
        (calculateScalpingScore (rainMarket\<lparr>outcomePrices := FirstElem NaN\<rparr>) 0.01 10 10 10 10 0)
       = NaN"
proof -
  have c: "spec_firstMatch (spec_hardExclusionChecks
             (rainMarket\<lparr>outcomePrices := FirstElem NaN\<rparr>) 0.01 10 10 0) = None"
    by (rule rain_checks) simp_all
  have p: "parseMidPrice (rainMarket\<lparr>outcomePrices := FirstElem NaN\<rparr>) = NaN"
    by (simp add: parseMidPrice_def)
  have "calculateScalpingScore (rainMarket\<lparr>outcomePrices := FirstElem NaN\<rparr>) 0.01 10 10 10 10 0
        = \<lparr>score = NaN, exclusionReason = None\<rparr>"
    unfolding calculateScalpingScore_eq c p by simp
  then show ?thesis
    by (simp add: parseMidPrice_def reversionBase_def)
qed

subsection \<open>Banded depth grows with the tick distance\<close>

lemma foldl_size: "foldl (\<lambda>acc item. acc + size item) a xs = a + sum_list (map size xs)"
  by (induction xs arbitrary: a) simp_all

lemma sum_filter_mono:
  assumes "\<forall>x \<in> set xs. 0 \<le> f x" and "\<And>x. P x \<Longrightarrow> Q x"
  shows "sum_list (map f (filter P xs)) \<le> sum_list (map (f :: 'a \<Rightarrow> real) (filter Q xs))"
  using assms
proof (induction xs)
  case Nil
  then show ?case by simp
next
  case (Cons x xs)
  then have ih: "sum_list (map f (filter P xs)) \<le> sum_list (map f (filter Q xs))" by simp
  from Cons.prems have nn: "0 \<le> f x" by simp
  show ?case
  proof (cases "P x")
    case True
    with Cons.prems(2) have "Q x" by blast
    with True ih show ?thesis by simp
  next
    case False
    with ih nn show ?thesis by (cases "Q x") simp_all
  qed
qed

text \<open>
  Claim C8. For sides whose level sizes are nonnegative and a tick size that is not
  negative (an absent or zero tick size counts as 0.01), \<^verbatim>\<open>getDepth\<close> at \<open>N\<close> ticks is at
  least \<^verbatim>\<open>getDepth\<close> at \<open>M\<close> ticks on the same side and from the same base price,
  whenever \<open>M \<le> N\<close>; this covers every pair \<open>N > M \<ge> 1\<close>.
\<close>

theorem getDepth_monotone:
  assumes sizes: "\<forall>l \<in> set sortedBids \<union> set sortedAsks. 0 \<le> size l"
    and tick: "0 < js_or (orderPriceMinTickSize m) 0.01"
    and ticks: "M \<le> N"
  shows "getDepth m sortedBids sortedAsks M sd basePrice
         \<le> getDepth m sortedBids sortedAsks N sd basePrice"
proof -
  from tick ticks have le: "M * js_or (orderPriceMinTickSize m) 0.01
       \<le> N * js_or (orderPriceMinTickSize m) 0.01"
    by (simp add: mult_right_mono)
  show ?thesis
  proof (cases sd)
    case Bids
    from sizes have "\<forall>l \<in> set sortedBids. 0 \<le> size l" by blast
    then have "sum_list (map size (filter (\<lambda>item. price item
                   \<ge> basePrice - M * js_or (orderPriceMinTickSize m) 0.01) sortedBids))
        \<le> sum_list (map size (filter (\<lambda>item. price item
                   \<ge> basePrice - N * js_or (orderPriceMinTickSize m) 0.01) sortedBids))"
      using le by (intro sum_filter_mono) auto
    with Bids show ?thesis by (simp add: getDepth_def Let_def foldl_size)
  next
    case Asks
    from sizes have "\<forall>l \<in> set sortedAsks. 0 \<le> size l" by blast
    then have "sum_list (map size (filter (\<lambda>item. price item
                   \<le> basePrice + M * js_or (orderPriceMinTickSize m) 0.01) sortedAsks))
        \<le> sum_list (map size (filter (\<lambda>item. price item
                   \<le> basePrice + N * js_or (orderPriceMinTickSize m) 0.01) sortedAsks))"
      using le by (intro sum_filter_mono) auto
    with Asks show ?thesis by (simp add: getDepth_def Let_def foldl_size)
  qed
qed

theorem getDepth_monotone_witness:
  "list_all (\<lambda>l. 0 \<le> size l) layeredBids
   \<and> 0 < js_or (orderPriceMinTickSize rainMarket) 0.01
   \<and> (1 :: real) \<le> 5
   \<and> getDepth rainMarket layeredBids [] 1 Bids 0.52 = 100
   \<and> getDepth rainMarket layeredBids [] 5 Bids 0.52 = 145
   \<and> getDepth rainMarket layeredBids [] 1 Bids 0.52 \<le> getDepth rainMarket layeredBids [] 5 Bids 0.52"
proof -
  have s: "\<forall>l \<in> set layeredBids \<union> set []. 0 \<le> size l"
    by (simp add: layeredBids_def)
  have t: "0 < js_or (orderPriceMinTickSize rainMarket) 0.01"
    by (simp add: rainMarket_def)
  have d1: "getDepth rainMarket layeredBids [] 1 Bids 0.52 = 100"
    by (simp add: getDepth_def layeredBids_def rainMarket_def)
  have d5: "getDepth rainMarket layeredBids [] 5 Bids 0.52 = 145"
    by (simp add: getDepth_def layeredBids_def rainMarket_def)
  have "getDepth rainMarket layeredBids [] 1 Bids 0.52 \<le> getDepth rainMarket layeredBids [] 5 Bids 0.52"
    using getDepth_monotone [OF s t, of 1 5 Bids "0.52"] by simp
  moreover have "list_all (\<lambda>l. 0 \<le> size l) layeredBids"
    by (simp add: layeredBids_def)
  ultimately show ?thesis using t d1 d5 by simp
qed

subsection \<open>Crossed books\<close>

lemma hd_sort_key_Min:
  fixes f :: "'a \<Rightarrow> real"
  assumes "xs \<noteq> []"
  shows "f (hd (sort_key f xs)) = Min (f ` set xs)"
proof -
  let ?ys = "sort_key f xs"
  from assms have ne: "?ys \<noteq> []" by (metis length_0_conv length_sort)
  then obtain y ys where ys: "?ys = y # ys" by (cases ?ys) auto
  have srt: "sorted (map f ?ys)" by (rule sorted_sort_key)
  have st: "set ?ys = set xs" by simp
  from srt ys have "\<forall>z \<in> set ?ys. f y \<le> f z" by auto
  with st have le: "\<forall>z \<in> set xs. f y \<le> f z" by simp
  from ys st have mem: "y \<in> set xs" by (metis list.set_intros(1))
  have "Min (f ` set xs) = f y"
    by (rule Min_eqI) (use le mem in auto)
  with ys show ?thesis by simp
qed

lemma bestBid_Max:
  assumes "bs \<noteq> []"
  shows "price (hd (sortBids bs)) = Max (price ` set bs)"
proof -
  let ?ys = "sortBids bs"
  from assms have ne: "?ys \<noteq> []" unfolding sortBids_def by (metis length_0_conv length_sort)
  then obtain y ys where ys: "?ys = y # ys" by (cases ?ys) auto
  have srt: "sorted (map (\<lambda>l. - price l) ?ys)" unfolding sortBids_def by (rule sorted_sort_key)
  have st: "set ?ys = set bs" by (simp add: sortBids_def)
  from srt ys have "\<forall>z \<in> set ?ys. price z \<le> price y" by auto
  with st have le: "\<forall>z \<in> set bs. price z \<le> price y" by simp
  from ys st have mem: "y \<in> set bs" by (metis list.set_intros(1))
  have "Max (price ` set bs) = price y"
    by (rule Max_eqI) (use le mem in auto)
  with ys show ?thesis by simp
qed

lemma bestAsk_Min: "as \<noteq> [] \<Longrightarrow> price (hd (sortAsks as)) = Min (price ` set as)"
  unfolding sortAsks_def by (rule hd_sort_key_Min)

lemma narrow_spread_not_reported:
  assumes "sprd / js_or (orderPriceMinTickSize m) 0.01 \<le> 5"
  shows "spec_firstMatch (spec_hardExclusionChecks m sprd b1 a1 now)
         \<noteq> Some ''Spread too wide (>5 ticks)''"
proof -
  obtain rest where r: "priceAtEdgeReason (parseMidPrice m) = CHR ''P'' # rest"
    using priceAtEdge_head by blast
  from assms have n: "\<not> sprd / js_or (orderPriceMinTickSize m) 0.01 > 5" by simp
  show ?thesis
    unfolding spec_hardExclusionChecks_def Let_def r
    using n
    by (cases "List.find (\<lambda>kw. includesStr (toLowerCase (question m)) kw) JUMP_RISK_KEYWORDS";
        cases "List.find (\<lambda>kw. includesStr (toLowerCase (question m)) kw)
                 STRUCTURAL_DECAY_KEYWORDS")
       (simp_all add: quoted_def)
qed

text \<open>
  Claim C3, as the code has it. For every fetched order book with both sides non-empty
  whose best ask (the minimum ask price) is strictly below its best bid (the maximum bid
  price), the spread is negative and is stored and passed to the scorer unmodified. With
  a tick size that is not negative the spread in ticks is negative too, so the
  wide-spread check does not match and is never the reported reason: a crossed book is
  excluded only when another check matches. The evaluation is total, so no input makes
  it fail.
\<close>

theorem crossed_book_negative_spread:
  assumes tok: "clobTokenIds m = Some (t # ts)"
    and book: "fetchBook t = Some book" "bids book \<noteq> []" "asks book \<noteq> []"
    and crossed: "Min (price ` set (asks book)) < Max (price ` set (bids book))"
    and tick: "0 < js_or (orderPriceMinTickSize m) 0.01"
  shows "p_bestBid (enhance fetchBook now m) = Some (Max (price ` set (bids book)))
       \<and> p_bestAsk (enhance fetchBook now m) = Some (Min (price ` set (asks book)))
       \<and> p_spread (enhance fetchBook now m)
           = Some (Min (price ` set (asks book)) - Max (price ` set (bids book)))
       \<and> Min (price ` set (asks book)) - Max (price ` set (bids book)) < 0
       \<and> d_spreadInTicks (enhance fetchBook now m) < 0
       \<and> p_exclusionReason (enhance fetchBook now m) \<noteq> Some ''Spread too wide (>5 ticks)''"
proof -
  let ?sp = "Min (price ` set (asks book)) - Max (price ` set (bids book))"
  have bb: "price (hd (sortBids (bids book))) = Max (price ` set (bids book))"
    using book(2) by (rule bestBid_Max)
  have ba: "price (hd (sortAsks (asks book))) = Min (price ` set (asks book))"
    using book(3) by (rule bestAsk_Min)
  from crossed have neg: "?sp < 0" by simp
  with tick have ticks: "?sp / js_or (orderPriceMinTickSize m) 0.01 < 0"
    by (simp add: divide_neg_pos)
  then have "?sp / js_or (orderPriceMinTickSize m) 0.01 \<le> 5" by simp
  then have nr: "\<And>b1 a1 b5 a5. exclusionReason (calculateScalpingScore m ?sp b1 a1 b5 a5 now)
            \<noteq> Some ''Spread too wide (>5 ticks)''"
    unfolding reason_ladder by (rule narrow_spread_not_reported)
  from tok book bb ba neg ticks nr show ?thesis
    by (simp add: enhance_def Let_def initialProcessed_def)
qed

theorem crossed_book_negative_spread_witness:
  "clobTokenIds rainMarket = Some (''token-yes'' # [''token-no''])
   \<and> fetchAlways crossedBook ''token-yes'' = Some crossedBook
   \<and> bids crossedBook \<noteq> [] \<and> asks crossedBook \<noteq> []
   \<and> Min (price ` set (asks crossedBook)) < Max (price ` set (bids crossedBook))
   \<and> 0 < js_or (orderPriceMinTickSize rainMarket) 0.01
   \<and> p_spread (enhance (fetchAlways crossedBook) 0 rainMarket)
       = Some (Min (price ` set (asks crossedBook)) - Max (price ` set (bids crossedBook)))
   \<and> d_spreadInTicks (enhance (fetchAlways crossedBook) 0 rainMarket) < 0
   \<and> p_exclusionReason (enhance (fetchAlways crossedBook) 0 rainMarket)
       \<noteq> Some ''Spread too wide (>5 ticks)''"
proof -
  have tok: "clobTokenIds rainMarket = Some (''token-yes'' # [''token-no''])"
    by (simp add: rainMarket_def)
  have f: "fetchAlways crossedBook ''token-yes'' = Some crossedBook"
    by (simp add: fetchAlways_def)
  have ne: "bids crossedBook \<noteq> []" "asks crossedBook \<noteq> []"
    by (simp_all add: crossedBook_def)
  have c: "Min (price ` set (asks crossedBook)) < Max (price ` set (bids crossedBook))"
    by (simp add: crossedBook_def)
  have t: "0 < js_or (orderPriceMinTickSize rainMarket) 0.01"
    by (simp add: rainMarket_def)
  from crossed_book_negative_spread
         [where fetchBook = "fetchAlways crossedBook" and now = 0, OF tok f ne c t]
       tok f ne c t
  show ?thesis by blast
qed

lemma crossedBook_enhance:
  "enhance (fetchAlways crossedBook) 0 rainMarket =
     (initialProcessed rainMarket 0)\<lparr>
        p_spread := Some (- 0.01), p_bestBid := Some 0.51, p_bestAsk := Some 0.50,
        d_spreadInTicks := - 1,
        d_depth1Tick := 20, d_depth3Tick := 20, d_depth5Tick := 20,
        d_bidDepth1 := 10, d_askDepth1 := 10, d_bidDepth5 := 10, d_askDepth5 := 10,
        p_scalpingScore := score (calculateScalpingScore rainMarket (- 0.01) 10 10 10 10 0),
        p_exclusionReason :=
          exclusionReason (calculateScalpingScore rainMarket (- 0.01) 10 10 10 10 0)\<rparr>"
  by (simp add: enhance_def Let_def rainMarket_def crossedBook_def sortBids_def sortAsks_def
      getDepth_def initialProcessed_def fetchAlways_def)

text \<open>
  The claim as stated fails: a crossed book on a market that passes the other checks is
  eligible.
\<close>

theorem crossed_book_eligible_counterexample:
  "Min (price ` set (asks crossedBook)) < Max (price ` set (bids crossedBook))
   \<and> p_spread (enhance (fetchAlways crossedBook) 0 rainMarket) = Some (- 0.01)
   \<and> p_exclusionReason (enhance (fetchAlways crossedBook) 0 rainMarket) = None"
proof -
  have e: "exclusionReason (calculateScalpingScore rainMarket (- 0.01) 10 10 10 10 0) = None"
    by (rule rain_eligible) simp_all
  have c: "Min (price ` set (asks crossedBook)) < Max (price ` set (bids crossedBook))"
    by (simp add: crossedBook_def)
  show ?thesis
    unfolding crossedBook_enhance using c e by simp
qed

subsection \<open>Range of the composite score\<close>

lemma log10_nonneg: "1 \<le> x \<Longrightarrow> 0 \<le> log10 x"
  by (simp add: log10_def)

lemma log10_pos: "1 < x \<Longrightarrow> 0 < log10 x"
  by (simp add: log10_def)

lemma log10_values: "log10 100000 = 5" "log10 10000 = 4" "log10 1000 = 3"
  unfolding log10_def
  using log_pow_cancel [of 10 5] log_pow_cancel [of 10 4] log_pow_cancel [of 10 3]
  by simp_all

lemma scaled_bounds:
  fixes x y X :: real
  assumes "0 \<le> x" "x \<le> X" "0 \<le> y" "y \<le> 1"
  shows "0 \<le> x * y \<and> x * y \<le> X"
proof -
  from assms have "x * y \<le> x * 1" by (intro mult_left_mono) simp_all
  with assms show ?thesis by simp
qed

lemma product_bounds:
  fixes x y X Y :: real
  assumes "0 \<le> x" "x \<le> X" "0 \<le> y" "y \<le> Y"
  shows "0 \<le> x * y \<and> x * y \<le> X * Y"
  using assms by (simp add: mult_mono)

lemma weighted_sum_bounds:
  fixes S V R D T :: real
  assumes "0 \<le> S" "S \<le> 100" "0 \<le> V" "V \<le> 100" "0 \<le> R" "R \<le> 120"
    "0 \<le> D" "D \<le> 130" "0 \<le> T" "T \<le> 100"
  shows "0 \<le> S * 0.25 + V * 0.25 + R * 0.20 + D * 0.15 + T * 0.10
       \<and> S * 0.25 + V * 0.25 + R * 0.20 + D * 0.15 + T * 0.10 \<le> 103.5"
  using assms by simp

lemma consistency_bounds:
  fixes r :: real
  shows "0 \<le> max 0.5 (min 1.3 (1 - \<bar>r - 1 / 7\<bar> * 4))
       \<and> max 0.5 (min 1.3 (1 - \<bar>r - 1 / 7\<bar> * 4)) \<le> 1"
  by (simp add: min_le_iff_disj le_max_iff_disj)

lemma capped_score_bounds:
  fixes L k :: real
  assumes "0 \<le> L" "0 \<le> k"
  shows "0 \<le> min 100 (L * k) \<and> min 100 (L * k) \<le> 100"
  using assms by simp

lemma layerBonus_bounds:
  fixes L :: real
  assumes "0 \<le> L"
  shows "0 \<le> min 1.3 (1 + L * 0.1) \<and> min 1.3 (1 + L * 0.1) \<le> 1.3"
  using assms by (auto simp: min_def)

lemma symmetry_bounds:
  fixes b a :: real
  assumes "0 \<le> b" "0 \<le> a" "0 < b + a"
  shows "0 \<le> 1 - \<bar>b - a\<bar> / (b + a) \<and> 1 - \<bar>b - a\<bar> / (b + a) \<le> 1"
proof -
  from assms have "\<bar>b - a\<bar> \<le> b + a" by simp
  with assms(3) have "\<bar>b - a\<bar> / (b + a) \<le> 1" by simp
  moreover from assms(3) have "0 \<le> \<bar>b - a\<bar> / (b + a)" by simp
  ultimately show ?thesis by simp
qed

lemma spreadScore_bounds: "0 \<le> spreadScore x \<and> spreadScore x \<le> 100"
  by (simp add: spreadScore_def)

lemma timeScore_bounds: "0 \<le> timeScore h \<and> timeScore h \<le> 100"
  by (simp add: timeScore_def)

lemma eventPenalty_bounds:
  "0 \<le> calculateEventResolutionPenalty q \<and> calculateEventResolutionPenalty q \<le> 1"
  by (simp add: calculateEventResolutionPenalty_def Let_def)

lemma jumpRiskPenalty_bounds:
  "0 \<le> calculateJumpRiskPenalty q c \<and> calculateJumpRiskPenalty q c \<le> 1"
  by (simp add: calculateJumpRiskPenalty_def Let_def)

lemma driftPenalty_bounds:
  "0 \<le> calculateDriftPenalty v c \<and> calculateDriftPenalty v c \<le> 1.2"
  by (simp add: calculateDriftPenalty_def Let_def)

lemma reversion_bounds:
  "0 \<le> max 0 (100 - 180 * \<bar>p - 0.5\<bar>) * calculateDriftPenalty v c
   \<and> max 0 (100 - 180 * \<bar>p - 0.5\<bar>) * calculateDriftPenalty v c \<le> 120"
proof -
  have b: "0 \<le> max 0 (100 - 180 * \<bar>p - 0.5\<bar>)" "max 0 (100 - 180 * \<bar>p - 0.5\<bar>) \<le> 100"
    by simp_all
  note d = driftPenalty_bounds [of v c]
  from product_bounds [OF b conjunct1 [OF d] conjunct2 [OF d]] show ?thesis by simp
qed

lemma churn_bounds:
  assumes "0 \<le> v"
  shows "0 \<le> calculateVolumeChurnScore v w \<and> calculateVolumeChurnScore v w \<le> 100"
proof -
  define r where "r = v / (if w = 0 then 1 else w)"
  show ?thesis
  proof (cases "r > 0.3")
    case True
    then have "calculateVolumeChurnScore v w = max 20 (100 - (r - 1 / 7) * 150)"
      by (simp add: calculateVolumeChurnScore_def Let_def r_def)
    moreover from True have "0 \<le> (r - 1 / 7) * 150" by simp
    ultimately show ?thesis by simp
  next
    case False
    then have eq: "calculateVolumeChurnScore v w
        = min 100 (log10 (v + 1) * 20) * max 0.5 (min 1.3 (1 - \<bar>r - 1 / 7\<bar> * 4))"
      by (simp add: calculateVolumeChurnScore_def Let_def r_def)
    from assms have "0 \<le> log10 (v + 1)" by (intro log10_nonneg) simp
    then have b: "0 \<le> min 100 (log10 (v + 1) * 20) \<and> min 100 (log10 (v + 1) * 20) \<le> 100"
      by (rule capped_score_bounds) simp
    note f = consistency_bounds [of r]
    from scaled_bounds [OF conjunct1 [OF b] conjunct2 [OF b] conjunct1 [OF f] conjunct2 [OF f]]
    show ?thesis unfolding eq .
  qed
qed

lemma depth_bounds:
  assumes "0 \<le> b1" "b1 \<le> b5" "0 \<le> a1" "a1 \<le> a5"
  shows "0 \<le> calculateDepthQualityScore b1 a1 b5 a5
       \<and> calculateDepthQualityScore b1 a1 b5 a5 \<le> 130"
proof (cases "b5 + a5 = 0 \<or> b1 = 0 \<or> a1 = 0")
  case True
  then show ?thesis by (auto simp: calculateDepthQualityScore_def Let_def)
next
  case False
  then have eq: "calculateDepthQualityScore b1 a1 b5 a5
      = min 100 (log10 (b5 + a5 + 1) * 30) * (1 - \<bar>b5 - a5\<bar> / (b5 + a5))
        * min 1.3 (1 + log10 ((b5 - b1) + (a5 - a1) + 2) * 0.1)"
    by (simp add: calculateDepthQualityScore_def Let_def)
  from assms have nn: "0 \<le> b5" "0 \<le> a5" by simp_all
  with False have tot: "0 < b5 + a5" by simp
  from nn have "0 \<le> log10 (b5 + a5 + 1)" by (intro log10_nonneg) simp
  then have d: "0 \<le> min 100 (log10 (b5 + a5 + 1) * 30)
              \<and> min 100 (log10 (b5 + a5 + 1) * 30) \<le> 100"
    by (rule capped_score_bounds) simp
  note s = symmetry_bounds [OF nn tot]
  from assms have "0 \<le> log10 ((b5 - b1) + (a5 - a1) + 2)" by (intro log10_nonneg) simp
  then have l: "0 \<le> min 1.3 (1 + log10 ((b5 - b1) + (a5 - a1) + 2) * 0.1)
              \<and> min 1.3 (1 + log10 ((b5 - b1) + (a5 - a1) + 2) * 0.1) \<le> 1.3"
    by (rule layerBonus_bounds)
  note ds = scaled_bounds [OF conjunct1 [OF d] conjunct2 [OF d] conjunct1 [OF s] conjunct2 [OF s]]
  from product_bounds [OF conjunct1 [OF ds] conjunct2 [OF ds] conjunct1 [OF l] conjunct2 [OF l]]
  show ?thesis unfolding eq by simp
qed

lemma composite_bounds:
  assumes "0 \<le> volume24hr m" "0 \<le> b1" "b1 \<le> b5" "0 \<le> a1" "a1 \<le> a5"
  shows "0 \<le> compositeOf m sprd b1 a1 b5 a5 now p
       \<and> compositeOf m sprd b1 a1 b5 a5 now p \<le> 103.5"
proof -
  note S = spreadScore_bounds [of "sprd / js_or (orderPriceMinTickSize m) 0.01"]
  note V = churn_bounds [OF assms(1), of "volume1wk m"]
  note R = reversion_bounds [of p "Num p" "js_or (oneWeekPriceChange m) 0"]
  note D = depth_bounds [OF assms(2-5)]
  note T = timeScore_bounds [of "hoursToResolution m now"]
  note E = eventPenalty_bounds [of "question m"]
  note J = jumpRiskPenalty_bounds [of "question m" "Num (js_or (oneWeekPriceChange m) 0)"]
  note A = weighted_sum_bounds [OF conjunct1 [OF S] conjunct2 [OF S] conjunct1 [OF V]
      conjunct2 [OF V] conjunct1 [OF R] conjunct2 [OF R] conjunct1 [OF D] conjunct2 [OF D]
      conjunct1 [OF T] conjunct2 [OF T]]
  note AE = scaled_bounds [OF conjunct1 [OF A] conjunct2 [OF A] conjunct1 [OF E] conjunct2 [OF E]]
  note AEJ = scaled_bounds [OF conjunct1 [OF AE] conjunct2 [OF AE] conjunct1 [OF J]
      conjunct2 [OF J]]
  show ?thesis unfolding compositeOf_def by (rule AEJ)
qed

lemma toFixed2_bounds:
  assumes "0 \<le> x" "x \<le> 103.5"
  shows "0 \<le> toFixed2 x \<and> toFixed2 x \<le> 103.5"
proof -
  from assms have "x * 100 + 1 / 2 < 10351" by simp
  then have "\<lfloor>x * 100 + 1 / 2\<rfloor> < 10351" by (simp add: floor_less_iff)
  then have up: "\<lfloor>x * 100 + 1 / 2\<rfloor> \<le> 10350" by simp
  from assms have "0 \<le> x * 100 + 1 / 2" by simp
  then have lo: "0 \<le> \<lfloor>x * 100 + 1 / 2\<rfloor>" by simp
  from up have "real_of_int \<lfloor>x * 100 + 1 / 2\<rfloor> \<le> 10350" by linarith
  with lo show ?thesis by (simp add: toFixed2_def)
qed

text \<open>
  Claim C2, as the code has it. Every excluded result has score exactly 0. For every
  eligible result whose price parsed to a number, with a nonnegative 24-hour volume and
  depths with 0 \<open>\<le>\<close> 1-tick depth \<open>\<le>\<close> 5-tick depth on each side, the score lies in
  [0, 103.5]: the stability bonus 1.2 on the mean-reversion component and the layer
  bonus 1.3 on the depth component are applied after those components are capped at
  100, and the composite is not capped.
\<close>

theorem score_range:
  "(exclusionReason (calculateScalpingScore m sprd b1 a1 b5 a5 now) \<noteq> None \<longrightarrow>
      score (calculateScalpingScore m sprd b1 a1 b5 a5 now) = Num 0)
   \<and> (exclusionReason (calculateScalpingScore m sprd b1 a1 b5 a5 now) = None
        \<and> parseMidPrice m = Num p
        \<and> 0 \<le> volume24hr m \<and> 0 \<le> b1 \<and> b1 \<le> b5 \<and> 0 \<le> a1 \<and> a1 \<le> a5 \<longrightarrow>
      (\<exists>s. score (calculateScalpingScore m sprd b1 a1 b5 a5 now) = Num s
            \<and> 0 \<le> s \<and> s \<le> 103.5))"
proof (intro conjI impI)
  assume "exclusionReason (calculateScalpingScore m sprd b1 a1 b5 a5 now) \<noteq> None"
  then show "score (calculateScalpingScore m sprd b1 a1 b5 a5 now) = Num 0"
    by (rule excluded_score_zero)
next
  assume h: "exclusionReason (calculateScalpingScore m sprd b1 a1 b5 a5 now) = None
        \<and> parseMidPrice m = Num p
        \<and> 0 \<le> volume24hr m \<and> 0 \<le> b1 \<and> b1 \<le> b5 \<and> 0 \<le> a1 \<and> a1 \<le> a5"
  let ?c = "compositeOf m sprd b1 a1 b5 a5 now p"
  from h have c: "0 \<le> ?c" "?c \<le> 103.5"
    using composite_bounds [of m b1 b5 a1 a5 sprd now p] by simp_all
  then have "0 \<le> max 0 ?c" "max 0 ?c \<le> 103.5" by simp_all
  then have r: "0 \<le> toFixed2 (max 0 ?c) \<and> toFixed2 (max 0 ?c) \<le> 103.5"
    by (rule toFixed2_bounds)
  from h have "score (calculateScalpingScore m sprd b1 a1 b5 a5 now) = Num (toFixed2 (max 0 ?c))"
    by (simp add: eligible_score)
  with r show "\<exists>s. score (calculateScalpingScore m sprd b1 a1 b5 a5 now) = Num s
            \<and> 0 \<le> s \<and> s \<le> 103.5"
    by blast
qed

theorem score_range_witness:
  "exclusionReason (calculateScalpingScore rainMarket 0.01 4500.5 4500.5 4999.5 4999.5 0) = None
   \<and> parseMidPrice rainMarket = Num 0.5
   \<and> 0 \<le> volume24hr rainMarket
   \<and> (0 :: real) \<le> 4500.5 \<and> (4500.5 :: real) \<le> 4999.5
   \<and> (\<exists>s. score (calculateScalpingScore rainMarket 0.01 4500.5 4500.5 4999.5 4999.5 0) = Num s
          \<and> 0 \<le> s \<and> s \<le> 103.5)
   \<and> exclusionReason (calculateScalpingScore championshipMarket 0.01 10 10 10 10 0) \<noteq> None
   \<and> score (calculateScalpingScore championshipMarket 0.01 10 10 10 10 0) = Num 0"
proof -
  have e: "exclusionReason (calculateScalpingScore rainMarket 0.01 4500.5 4500.5 4999.5 4999.5 0)
           = None"
    by (rule rain_eligible) simp_all
  have p: "parseMidPrice rainMarket = Num 0.5"
    by (simp add: parseMidPrice_def rainMarket_def)
  have v: "0 \<le> volume24hr rainMarket" by (simp add: rainMarket_def)
  have n: "(0 :: real) \<le> 4500.5" "(4500.5 :: real) \<le> 4999.5" by simp_all
  note T = score_range [where m = rainMarket and sprd = "0.01" and ?b1.0 = "4500.5"
      and ?a1.0 = "4500.5" and ?b5.0 = "4999.5" and ?a5.0 = "4999.5" and now = 0 and p = "0.5"]
  from T e p v n
  have r: "\<exists>s. score (calculateScalpingScore rainMarket 0.01 4500.5 4500.5 4999.5 4999.5 0) = Num s
          \<and> 0 \<le> s \<and> s \<le> 103.5"
    by blast
  have x: "exclusionReason (calculateScalpingScore championshipMarket 0.01 10 10 10 10 0) \<noteq> None"
    by (simp add: reason_ladder spec_hardExclusionChecks_def Let_def championshipMarket_def
        rainMarket_def championship_lower championship_no_jump championship_decay)
  note U = score_range [where m = championshipMarket and sprd = "0.01" and ?b1.0 = 10
      and ?a1.0 = 10 and ?b5.0 = 10 and ?a5.0 = 10 and now = 0 and p = "0.04"]
  from U x have z: "score (calculateScalpingScore championshipMarket 0.01 10 10 10 10 0) = Num 0"
    by blast
  from e p v n r x z show ?thesis by blast
qed

lemma rain_composite:
  "compositeOf rainMarket 0.01 4500.5 4500.5 4999.5 4999.5 0 0.5 = 103.5"
proof -
  have s: "spreadScore (0.01 / js_or (orderPriceMinTickSize rainMarket) 0.01) = 100"
    by (simp add: spreadScore_def rainMarket_def)
  have v: "calculateVolumeChurnScore (volume24hr rainMarket) (volume1wk rainMarket) = 100"
    by (simp add: calculateVolumeChurnScore_def rainMarket_def log10_values)
  have r: "max 0 (100 - 180 * \<bar>0.5 - 0.5 :: real\<bar>)
             * calculateDriftPenalty (Num 0.5) (js_or (oneWeekPriceChange rainMarket) 0) = 120"
    by (simp add: calculateDriftPenalty_def rainMarket_def)
  have d: "calculateDepthQualityScore 4500.5 4500.5 4999.5 4999.5 = 130"
    by (simp add: calculateDepthQualityScore_def log10_values)
  have t: "timeScore (hoursToResolution rainMarket 0) = 100"
    by (simp add: timeScore_def hoursToResolution_def rainMarket_def)
  have e: "calculateEventResolutionPenalty (question rainMarket) = 1"
    using rain_event by (simp add: rainMarket_def)
  have j: "calculateJumpRiskPenalty (question rainMarket)
             (Num (js_or (oneWeekPriceChange rainMarket) 0)) = 1"
    using rain_no_jump_ex by (simp add: calculateJumpRiskPenalty_def rainMarket_def rain_lower)
  show ?thesis
    unfolding compositeOf_def s v r d t e j by simp
qed

lemma deepBook_enhance:
  "enhance (fetchAlways deepBook) 0 rainMarket =
     (initialProcessed rainMarket 0)\<lparr>
        p_spread := Some 0.01, p_bestBid := Some 0.50, p_bestAsk := Some 0.51,
        d_spreadInTicks := 1,
        d_depth1Tick := 9001, d_depth3Tick := 9999, d_depth5Tick := 9999,
        d_bidDepth1 := 4500.5, d_askDepth1 := 4500.5, d_bidDepth5 := 4999.5,
        d_askDepth5 := 4999.5,
        p_scalpingScore :=
          score (calculateScalpingScore rainMarket 0.01 4500.5 4500.5 4999.5 4999.5 0),
        p_exclusionReason :=
          exclusionReason (calculateScalpingScore rainMarket 0.01 4500.5 4500.5 4999.5 4999.5 0)\<rparr>"
  by (simp add: enhance_def Let_def rainMarket_def deepBook_def sortBids_def sortAsks_def
      getDepth_def initialProcessed_def fetchAlways_def)

text \<open>
  The claim as stated fails: a deep, balanced, one-tick-wide book on a stable market at
  price 0.5 scores 103.5.
\<close>

theorem score_above_100_counterexample:
  "p_exclusionReason (enhance (fetchAlways deepBook) 0 rainMarket) = None
   \<and> p_scalpingScore (enhance (fetchAlways deepBook) 0 rainMarket) = Num 103.5
   \<and> (103.5 :: real) > 100"
proof -
  have e: "exclusionReason (calculateScalpingScore rainMarket 0.01 4500.5 4500.5 4999.5 4999.5 0)
           = None"
    by (rule rain_eligible) simp_all
  have p: "parseMidPrice rainMarket = Num 0.5"
    by (simp add: parseMidPrice_def rainMarket_def)
  have "score (calculateScalpingScore rainMarket 0.01 4500.5 4500.5 4999.5 4999.5 0)
        = Num (toFixed2 (max 0 103.5))"
    unfolding eligible_score [OF e] p js_map.simps rain_composite ..
  then have s: "score (calculateScalpingScore rainMarket 0.01 4500.5 4500.5 4999.5 4999.5 0)
        = Num 103.5"
    by (simp add: toFixed2_def)
  show ?thesis
    unfolding deepBook_enhance using e s by simp
qed

end
